theory Spec2Isabelle
  imports Main
begin

section \<open>Python strings\<close>

text \<open>
  The server works on Python \<^verbatim>\<open>str\<close> values. They are modelled as \<^typ>\<open>string\<close>, a
  character being one of the code points U+0000 to U+00FF; text with other code points
  is outside the model. On these characters \<^verbatim>\<open>lower()\<close>, \<^verbatim>\<open>upper()\<close> and the whitespace
  test are Python's: the letters are the ASCII letters and U+00C0 to U+00FE without the
  signs U+00D7 and U+00F7.
\<close>

definition py_lower_char :: "char \<Rightarrow> char" where
  "py_lower_char c =
     (case map_of
        (zip (''ABCDEFGHIJKLMNOPQRSTUVWXYZ'' @
           [CHR 0xC0, CHR 0xC1, CHR 0xC2, CHR 0xC3, CHR 0xC4, CHR 0xC5, CHR 0xC6, CHR 0xC7,
            CHR 0xC8, CHR 0xC9, CHR 0xCA, CHR 0xCB, CHR 0xCC, CHR 0xCD, CHR 0xCE, CHR 0xCF,
            CHR 0xD0, CHR 0xD1, CHR 0xD2, CHR 0xD3, CHR 0xD4, CHR 0xD5, CHR 0xD6, CHR 0xD8,
            CHR 0xD9, CHR 0xDA, CHR 0xDB, CHR 0xDC, CHR 0xDD, CHR 0xDE])
          (''abcdefghijklmnopqrstuvwxyz'' @
           [CHR 0xE0, CHR 0xE1, CHR 0xE2, CHR 0xE3, CHR 0xE4, CHR 0xE5, CHR 0xE6, CHR 0xE7,
            CHR 0xE8, CHR 0xE9, CHR 0xEA, CHR 0xEB, CHR 0xEC, CHR 0xED, CHR 0xEE, CHR 0xEF,
            CHR 0xF0, CHR 0xF1, CHR 0xF2, CHR 0xF3, CHR 0xF4, CHR 0xF5, CHR 0xF6, CHR 0xF8,
            CHR 0xF9, CHR 0xFA, CHR 0xFB, CHR 0xFC, CHR 0xFD, CHR 0xFE])) c of
        Some d \<Rightarrow> d | None \<Rightarrow> c)"

definition py_lower :: "string \<Rightarrow> string" where
  "py_lower s = map py_lower_char s"

text \<open>
  \<^verbatim>\<open>upper()\<close> leaves the code points of the model: it maps U+00DF to \<open>SS\<close>, U+00B5 to
  U+039C and U+00FF to U+0178. The upper-cased text is therefore a list of code points.
\<close>

definition code_points :: "string \<Rightarrow> int list" where
  "code_points s = map of_char s"

definition py_upper_char :: "char \<Rightarrow> int list" where
  "py_upper_char c =
     (if c = CHR 0xDF then [0x53, 0x53]
      else if c = CHR 0xB5 then [0x39C]
      else if c = CHR 0xFF then [0x178]
      else [of_char
        (case map_of
           (zip (''abcdefghijklmnopqrstuvwxyz'' @
              [CHR 0xE0, CHR 0xE1, CHR 0xE2, CHR 0xE3, CHR 0xE4, CHR 0xE5, CHR 0xE6, CHR 0xE7,
               CHR 0xE8, CHR 0xE9, CHR 0xEA, CHR 0xEB, CHR 0xEC, CHR 0xED, CHR 0xEE, CHR 0xEF,
               CHR 0xF0, CHR 0xF1, CHR 0xF2, CHR 0xF3, CHR 0xF4, CHR 0xF5, CHR 0xF6, CHR 0xF8,
               CHR 0xF9, CHR 0xFA, CHR 0xFB, CHR 0xFC, CHR 0xFD, CHR 0xFE])
             (''ABCDEFGHIJKLMNOPQRSTUVWXYZ'' @
              [CHR 0xC0, CHR 0xC1, CHR 0xC2, CHR 0xC3, CHR 0xC4, CHR 0xC5, CHR 0xC6, CHR 0xC7,
               CHR 0xC8, CHR 0xC9, CHR 0xCA, CHR 0xCB, CHR 0xCC, CHR 0xCD, CHR 0xCE, CHR 0xCF,
               CHR 0xD0, CHR 0xD1, CHR 0xD2, CHR 0xD3, CHR 0xD4, CHR 0xD5, CHR 0xD6, CHR 0xD8,
               CHR 0xD9, CHR 0xDA, CHR 0xDB, CHR 0xDC, CHR 0xDD, CHR 0xDE])) c of
           Some d \<Rightarrow> d | None \<Rightarrow> c)])"

definition py_upper :: "string \<Rightarrow> int list" where
  "py_upper s = concat (map py_upper_char s)"

text \<open>\<^verbatim>\<open>s.startswith(p)\<close> and \<^verbatim>\<open>p in s\<close> (substring test).\<close>

definition py_startswith :: "'a list \<Rightarrow> 'a list \<Rightarrow> bool" where
  "py_startswith s p = (take (length p) s = p)"

fun py_contains :: "'a list \<Rightarrow> 'a list \<Rightarrow> bool" where
  "py_contains p [] = (p = [])"
| "py_contains p (c # cs) = (py_startswith (c # cs) p \<or> py_contains p cs)"

text \<open>
  \<^verbatim>\<open>s.replace(old, new)\<close>: every non-overlapping occurrence of \<open>old\<close>, found from the
  left, is replaced. With an empty \<open>old\<close> Python puts \<open>new\<close> before every character
  and at the end.
\<close>

function py_replace :: "string \<Rightarrow> string \<Rightarrow> string \<Rightarrow> string" where
  "py_replace old new [] = (if old = [] then new else [])"
| "py_replace old new (c # cs) =
     (if old = [] then new @ c # py_replace old new cs
      else if py_startswith (c # cs) old
           then new @ py_replace old new (drop (length old) (c # cs))
           else c # py_replace old new cs)"
  by pat_completeness auto
termination
  by (relation "measure (\<lambda>(old, new, s). length s)") (auto simp: Suc_le_eq)

text \<open>\<^verbatim>\<open>sep.join(xs)\<close>\<close>

fun py_join :: "string \<Rightarrow> string list \<Rightarrow> string" where
  "py_join sep [] = []"
| "py_join sep [x] = x"
| "py_join sep (x # y # ys) = x @ sep @ py_join sep (y # ys)"

text \<open>
  \<^verbatim>\<open>s.replace(old, new, 1)\<close>: only the first occurrence from the left is replaced.
\<close>

fun py_replace_first :: "string \<Rightarrow> string \<Rightarrow> string \<Rightarrow> string" where
  "py_replace_first old new [] = (if old = [] then new else [])"
| "py_replace_first old new (c # cs) =
     (if py_startswith (c # cs) old then new @ drop (length old) (c # cs)
      else c # py_replace_first old new cs)"

text \<open>
  Python's whitespace: the characters for which \<^verbatim>\<open>isspace()\<close> holds. Among the characters
  of the model they are U+0009 to U+000D, U+001C to U+0020, U+0085 and U+00A0; among all
  code points there are also U+1680, U+2000 to U+200A, U+2028, U+2029, U+202F, U+205F and
  U+3000. \<^verbatim>\<open>s.strip()\<close> removes leading and trailing whitespace; the server applies it to
  upper-cased text.
\<close>

definition py_isspace :: "char \<Rightarrow> bool" where
  "py_isspace c = (c \<in> set [CHR 0x09, CHR 0x0A, CHR 0x0B, CHR 0x0C, CHR 0x0D,
                             CHR 0x1C, CHR 0x1D, CHR 0x1E, CHR 0x1F, CHR 0x20,
                             CHR 0x85, CHR 0xA0])"

definition py_isspace_cp :: "int \<Rightarrow> bool" where
  "py_isspace_cp n = (n \<in> set [0x09, 0x0A, 0x0B, 0x0C, 0x0D, 0x1C, 0x1D, 0x1E, 0x1F, 0x20,
                               0x85, 0xA0, 0x1680, 0x2000, 0x2001, 0x2002, 0x2003, 0x2004,
                               0x2005, 0x2006, 0x2007, 0x2008, 0x2009, 0x200A, 0x2028,
                               0x2029, 0x202F, 0x205F, 0x3000])"

definition py_strip :: "int list \<Rightarrow> int list" where
  "py_strip s = rev (dropWhile py_isspace_cp (rev (dropWhile py_isspace_cp s)))"

text \<open>\<^verbatim>\<open>str(n)\<close> of an integer, as an f-string prints it.\<close>

definition digit_char :: "nat \<Rightarrow> char" where
  "digit_char d = ''0123456789'' ! d"

function decimal :: "nat \<Rightarrow> string" where
  "decimal n = (if 10 \<le> n then decimal (n div 10) @ [digit_char (n mod 10)] else [digit_char n])"
  by pat_completeness auto
termination
  by (relation "measure id") auto

declare decimal.simps [simp del]

definition py_str_int :: "int \<Rightarrow> string" where
  "py_str_int i = (if 0 \<le> i then decimal (nat i) else CHR ''-'' # decimal (nat (- i)))"

text \<open>The single-quote character, which delimits string literals in the queries.\<close>

abbreviation sq :: string where
  "sq \<equiv> [CHR 0x27]"

section \<open>Python values\<close>

text \<open>
  An exception is kept as its class name and the text \<^verbatim>\<open>str(e)\<close> gives; the handlers
  of the server use nothing else. Only exceptions derived from \<^verbatim>\<open>Exception\<close> are
  modelled, the ones \<^verbatim>\<open>except Exception\<close> catches.
\<close>

datatype exn = Exn (exc_class: string) (exc_str: string)

text \<open>
  Python floats are left abstract: the type parameter \<open>'f\<close> stands for them, and the
  operations the server applies to floats are the fields of \<open>float_ops\<close>. A float literal
  is given by its source text, so \<open>f_lit ops ''60.0''\<close> is the value of \<^verbatim>\<open>60.0\<close>.
\<close>

record 'f float_ops =
  f_lit :: "string \<Rightarrow> 'f"
  f_of_int :: "int \<Rightarrow> 'f"
  f_add :: "'f \<Rightarrow> 'f \<Rightarrow> 'f"
  f_mul :: "'f \<Rightarrow> 'f \<Rightarrow> 'f"
  f_truediv :: "'f \<Rightarrow> 'f \<Rightarrow> exn + 'f"
  f_round :: "'f \<Rightarrow> nat \<Rightarrow> 'f"
  f_repr :: "'f \<Rightarrow> string"
  f_fixed4 :: "'f \<Rightarrow> string"
  f_is_zero :: "'f \<Rightarrow> bool"
  f_parse :: "string \<Rightarrow> exn + 'f"

text \<open>
  The scalar values that reach the server in table cells and leave it in responses, and
  the JSON-like values a response is made of. A dict is an association list in insertion
  order, as Python keeps it.
\<close>

datatype 'f scalar = SNone | SBool bool | SInt int | SFloat 'f | SStr string

datatype 'f pyval = Scalar "'f scalar" | PyList "'f pyval list" | PyDict "(string \<times> 'f pyval) list"

type_synonym 'f response = "(string \<times> 'f pyval) list"

abbreviation VStr :: "string \<Rightarrow> 'f pyval" where
  "VStr s \<equiv> Scalar (SStr s)"

abbreviation VInt :: "int \<Rightarrow> 'f pyval" where
  "VInt i \<equiv> Scalar (SInt i)"

abbreviation VNat :: "nat \<Rightarrow> 'f pyval" where
  "VNat n \<equiv> Scalar (SInt (int n))"

abbreviation VFloat :: "'f \<Rightarrow> 'f pyval" where
  "VFloat x \<equiv> Scalar (SFloat x)"

text \<open>\<^verbatim>\<open>d[k] = v\<close> on a dict: an existing key keeps its place and gets the new value.\<close>

fun dict_set :: "('k \<times> 'v) list \<Rightarrow> 'k \<Rightarrow> 'v \<Rightarrow> ('k \<times> 'v) list" where
  "dict_set [] k v = [(k, v)]"
| "dict_set ((k', v') # d) k v = (if k' = k then (k, v) # d else (k', v') # dict_set d k v)"

text \<open>\<^verbatim>\<open>float(x)\<close>, \<^verbatim>\<open>round(x, n)\<close>, \<^verbatim>\<open>str(x)\<close> and the truth value of a scalar.\<close>

fun py_float :: "'f float_ops \<Rightarrow> 'f scalar \<Rightarrow> exn + 'f" where
  "py_float ops (SFloat x) = Inr x"
| "py_float ops (SInt i) = Inr (f_of_int ops i)"
| "py_float ops (SBool b) = Inr (f_of_int ops (if b then 1 else 0))"
| "py_float ops (SStr s) = f_parse ops s"
| "py_float ops SNone =
     Inl (Exn ''TypeError'' ''float() argument must be a string or a real number'')"

fun py_round :: "'f float_ops \<Rightarrow> 'f scalar \<Rightarrow> nat \<Rightarrow> exn + 'f scalar" where
  "py_round ops (SFloat x) n = Inr (SFloat (f_round ops x n))"
| "py_round ops (SInt i) n = Inr (SInt i)"
| "py_round ops (SBool b) n = Inr (SInt (if b then 1 else 0))"
| "py_round ops (SStr s) n = Inl (Exn ''TypeError'' ''type str doesn't define __round__ method'')"
| "py_round ops SNone n =
     Inl (Exn ''TypeError'' ''type NoneType doesn't define __round__ method'')"

fun py_str :: "'f float_ops \<Rightarrow> 'f scalar \<Rightarrow> string" where
  "py_str ops (SStr s) = s"
| "py_str ops (SInt i) = py_str_int i"
| "py_str ops (SFloat x) = f_repr ops x"
| "py_str ops (SBool b) = (if b then ''True'' else ''False'')"
| "py_str ops SNone = ''None''"

fun py_truthy :: "'f float_ops \<Rightarrow> 'f scalar \<Rightarrow> bool" where
  "py_truthy ops SNone = False"
| "py_truthy ops (SBool b) = b"
| "py_truthy ops (SInt i) = (i \<noteq> 0)"
| "py_truthy ops (SFloat x) = (\<not> f_is_zero ops x)"
| "py_truthy ops (SStr s) = (s \<noteq> [])"

text \<open>
  Optional parameters (\<^verbatim>\<open>target_name: str = None\<close>, \<^verbatim>\<open>band: int = None\<close>) are options;
  \<^verbatim>\<open>if target_name:\<close> holds for a non-empty string, \<^verbatim>\<open>if band:\<close> for a non-zero integer.
\<close>

definition truthy_str :: "string option \<Rightarrow> bool" where
  "truthy_str x = (case x of None \<Rightarrow> False | Some s \<Rightarrow> s \<noteq> [])"

definition truthy_int :: "int option \<Rightarrow> bool" where
  "truthy_int x = (case x of None \<Rightarrow> False | Some i \<Rightarrow> i \<noteq> 0)"

section \<open>Data frames\<close>

text \<open>
  A pandas \<^verbatim>\<open>DataFrame\<close> as the server reads it: the column names and the rows, a row
  mapping column names to cells.
\<close>

record 'f dataframe =
  df_columns :: "string list"
  df_rows :: "(string \<times> 'f scalar) list list"

text \<open>\<^verbatim>\<open>df.empty\<close> holds when either axis has length 0; \<^verbatim>\<open>len(df)\<close> counts the rows.\<close>

definition df_empty :: "'f dataframe \<Rightarrow> bool" where
  "df_empty df = (df_rows df = [] \<or> df_columns df = [])"

definition df_len :: "'f dataframe \<Rightarrow> nat" where
  "df_len df = length (df_rows df)"

text \<open>\<^verbatim>\<open>df.head(n)\<close>: the first \<open>n\<close> rows; for a negative \<open>n\<close> all rows but the last \<open>-n\<close>.\<close>

definition df_head :: "int \<Rightarrow> 'f dataframe \<Rightarrow> (string \<times> 'f scalar) list list" where
  "df_head n df =
     (if 0 \<le> n then take (nat n) (df_rows df)
      else take (length (df_rows df) - nat (- n)) (df_rows df))"

text \<open>\<^verbatim>\<open>row.get(key, default)\<close> and \<^verbatim>\<open>row[col]\<close>\<close>

definition row_get :: "(string \<times> 'f scalar) list \<Rightarrow> string \<Rightarrow> 'f scalar \<Rightarrow> 'f scalar" where
  "row_get row key dflt = (case map_of row key of Some v \<Rightarrow> v | None \<Rightarrow> dflt)"

definition key_error :: "string \<Rightarrow> exn" where
  "key_error k = Exn ''KeyError'' (sq @ k @ sq)"

definition row_item :: "(string \<times> 'f scalar) list \<Rightarrow> string \<Rightarrow> exn + 'f scalar" where
  "row_item row key = (case map_of row key of Some v \<Rightarrow> Inr v | None \<Rightarrow> Inl (key_error key))"

text \<open>
  \<^verbatim>\<open>df[col].unique().tolist()\<close>: the values of a column without repetitions, in the order
  of their first occurrence; a column the frame does not have raises \<^verbatim>\<open>KeyError\<close>.
\<close>

definition unique_first :: "'a list \<Rightarrow> 'a list" where
  "unique_first xs = fold (\<lambda>x acc. if x \<in> set acc then acc else acc @ [x]) xs []"

definition df_unique :: "'f dataframe \<Rightarrow> string \<Rightarrow> exn + 'f scalar list" where
  "df_unique df col =
     (if col \<in> set (df_columns df)
      then Inr (unique_first (map (\<lambda>row. row_get row col SNone) (df_rows df)))
      else Inl (key_error col))"

text \<open>A loop whose body may raise stops at the first exception.\<close>

fun mapE :: "('a \<Rightarrow> exn + 'b) \<Rightarrow> 'a list \<Rightarrow> exn + 'b list" where
  "mapE f [] = Inr []"
| "mapE f (x # xs) =
     (case f x of Inl e \<Rightarrow> Inl e
      | Inr y \<Rightarrow> (case mapE f xs of Inl e \<Rightarrow> Inl e | Inr ys \<Rightarrow> Inr (y # ys)))"

section \<open>Identifier normalisation of the member-OUS search\<close>

text \<open>
  \<^verbatim>\<open>normalized_uid = member_ous_id.replace("___", "://").replace("_", "/")\<close>
\<close>

definition normalize_uid :: "string \<Rightarrow> string" where
  "normalize_uid member_ous_id = py_replace ''_'' ''/'' (py_replace ''___'' ''://'' member_ous_id)"

section \<open>Collaborators\<close>

text \<open>
  The libraries the server calls are outside the repository. The three flags say which of
  them could be imported. Each remote query is an oracle that may raise; it is given the
  calls made so far, so that the same query may be answered differently the next time, and
  every remote query the server makes is recorded in that list.
  \<^item> \<^verbatim>\<open>Simbad.query_object(name)\<close> returns \<^verbatim>\<open>None\<close> or a table, kept as its rows;
  \<^item> \<^verbatim>\<open>alminer.conesearch\<close> and \<^verbatim>\<open>alminer.keysearch\<close> return \<^verbatim>\<open>None\<close> or a frame;
  \<^item> \<^verbatim>\<open>service.search(query)\<close> followed by \<^verbatim>\<open>.to_table().to_pandas()\<close> is one oracle
    that returns the frame.
  \<^verbatim>\<open>SkyCoord\<close>, \<^verbatim>\<open>alminer.line_coverage\<close> and the constructor \<^verbatim>\<open>pyvo.dal.TAPService\<close> compute
  locally; they are functions of their arguments that may raise.
\<close>

datatype 'f call =
    SimbadQuery string
  | ConeSearch 'f 'f 'f "bool option"
  | KeySearch "(string \<times> string list) list"
  | TapSearch string

type_synonym simbad_table = "(string \<times> string) list list"

record 'f env =
  ALMINER_AVAILABLE :: bool
  PYVO_AVAILABLE :: bool
  SIMBAD_AVAILABLE :: bool
  fops :: "'f float_ops"
  simbad_query_object :: "'f call list \<Rightarrow> string \<Rightarrow> exn + simbad_table option"
  skycoord :: "string \<Rightarrow> string \<Rightarrow> exn + 'f \<times> 'f"
  alminer_conesearch ::
    "'f call list \<Rightarrow> 'f \<Rightarrow> 'f \<Rightarrow> 'f \<Rightarrow> bool option \<Rightarrow> exn + 'f dataframe option"
  alminer_keysearch ::
    "'f call list \<Rightarrow> (string \<times> string list) list \<Rightarrow> exn + 'f dataframe option"
  alminer_line_coverage :: "'f dataframe \<Rightarrow> 'f \<Rightarrow> 'f \<Rightarrow> exn + 'f dataframe option"
  tap_service :: "string \<Rightarrow> exn + unit"
  tap_search :: "'f call list \<Rightarrow> string \<Rightarrow> exn + 'f dataframe"

section \<open>Computations that call collaborators and may raise\<close>

text \<open>
  A computation takes the list of remote calls made so far and returns that list extended,
  with either the exception it raised (\<open>Inl\<close>) or its value (\<open>Inr\<close>).
\<close>

type_synonym ('f, 'a) comp = "'f call list \<Rightarrow> (exn + 'a) \<times> 'f call list"

definition ret :: "'a \<Rightarrow> ('f, 'a) comp" where
  "ret x calls = (Inr x, calls)"

definition lift :: "exn + 'a \<Rightarrow> ('f, 'a) comp" where
  "lift r calls = (r, calls)"

definition cbind :: "('f, 'a) comp \<Rightarrow> ('a \<Rightarrow> ('f, 'b) comp) \<Rightarrow> ('f, 'b) comp" where
  "cbind m k calls =
     (case m calls of (Inl e, calls') \<Rightarrow> (Inl e, calls') | (Inr x, calls') \<Rightarrow> k x calls')"

text \<open>\<^verbatim>\<open>try: m  except Exception as e: h(e)\<close>\<close>

definition try_except :: "('f, 'a) comp \<Rightarrow> (exn \<Rightarrow> ('f, 'a) comp) \<Rightarrow> ('f, 'a) comp" where
  "try_except m h calls =
     (case m calls of (Inl e, calls') \<Rightarrow> h e calls' | (Inr x, calls') \<Rightarrow> (Inr x, calls'))"

definition remote :: "'f call \<Rightarrow> ('f call list \<Rightarrow> exn + 'a) \<Rightarrow> ('f, 'a) comp" where
  "remote c oracle calls = (oracle calls, calls @ [c])"

definition simbad_query :: "'f env \<Rightarrow> string \<Rightarrow> ('f, simbad_table option) comp" where
  "simbad_query env name =
     remote (SimbadQuery name) (\<lambda>calls. simbad_query_object env calls name)"

definition conesearch ::
  "'f env \<Rightarrow> 'f \<Rightarrow> 'f \<Rightarrow> 'f \<Rightarrow> bool option \<Rightarrow> ('f, 'f dataframe option) comp" where
  "conesearch env ra dec search_radius public =
     remote (ConeSearch ra dec search_radius public)
       (\<lambda>calls. alminer_conesearch env calls ra dec search_radius public)"


definition service_search :: "'f env \<Rightarrow> string \<Rightarrow> ('f, 'f dataframe) comp" where
  "service_search env query = remote (TapSearch query) (\<lambda>calls. tap_search env calls query)"

definition tap_url :: string where
  "tap_url = ''https://almascience.nrao.edu/tap''"

text \<open>
  \<^verbatim>\<open>result is None or len(result) == 0\<close>, and \<^verbatim>\<open>result[col][0]\<close> on a table with a row.
\<close>

definition simbad_no_match :: "simbad_table option \<Rightarrow> bool" where
  "simbad_no_match result = (case result of None \<Rightarrow> True | Some rows \<Rightarrow> rows = [])"

definition simbad_first :: "simbad_table option \<Rightarrow> string \<Rightarrow> exn + string" where
  "simbad_first result col =
     (case result of
        None \<Rightarrow> Inl (Exn ''TypeError'' '''NoneType' object is not subscriptable'')
      | Some [] \<Rightarrow> Inl (Exn ''IndexError'' ''index 0 is out of bounds for axis 0 with size 0'')
      | Some (row # _) \<Rightarrow>
          (case map_of row col of Some v \<Rightarrow> Inr v | None \<Rightarrow> Inl (key_error col)))"

text \<open>
  The lines that turn a SIMBAD table into degrees:
  \<^verbatim>\<open>ra_str = result['RA'][0]; dec_str = result['DEC'][0]; coord = SkyCoord(ra_str, dec_str, ...)\<close>
\<close>

definition table_coords :: "'f env \<Rightarrow> simbad_table option \<Rightarrow> exn + 'f \<times> 'f" where
  "table_coords env result =
     (case simbad_first result ''RA'' of Inl e \<Rightarrow> Inl e
      | Inr ra_str \<Rightarrow>
          (case simbad_first result ''DEC'' of Inl e \<Rightarrow> Inl e
           | Inr dec_str \<Rightarrow> skycoord env ra_str dec_str))"

definition error_response :: "string \<Rightarrow> 'f response" where
  "error_response msg = [(''error'', VStr msg)]"

section \<open>Tool 2: search by coordinates\<close>

definition position_query :: "'f float_ops \<Rightarrow> 'f \<Rightarrow> 'f \<Rightarrow> 'f \<Rightarrow> string" where
  "position_query ops ra_degrees dec_degrees radius_deg =
     ''\<newline>'' @
     ''        SELECT TOP 100\<newline>'' @
     ''            target_name, s_ra, s_dec, band_list, proposal_id,\<newline>'' @
     ''            frequency, bandwidth, t_exptime, s_resolution\<newline>'' @
     ''        FROM ivoa.obscore \<newline>'' @
     ''        WHERE CONTAINS(POINT('ICRS', s_ra, s_dec), \<newline>'' @
     ''                       CIRCLE('ICRS', '' @ f_repr ops ra_degrees @ '', '' @ f_repr ops dec_degrees @ '', '' @ f_repr ops radius_deg @ '')) = 1\<newline>'' @
     ''        ''"

definition position_obs :: "'f float_ops \<Rightarrow> (string \<times> 'f scalar) list \<Rightarrow> exn + 'f pyval" where
  "position_obs ops row =
     (case py_float ops (row_get row ''s_ra'' (SInt 0)) of Inl e \<Rightarrow> Inl e
      | Inr ra \<Rightarrow>
     (case py_float ops (row_get row ''s_dec'' (SInt 0)) of Inl e \<Rightarrow> Inl e
      | Inr dec \<Rightarrow>
        Inr (PyDict
          [(''target'', Scalar (row_get row ''target_name'' (SStr ''Unknown''))),
           (''ra'', VFloat (f_round ops ra 4)),
           (''dec'', VFloat (f_round ops dec 4)),
           (''band'', VStr (py_str ops (row_get row ''band_list'' (SStr ''Unknown'')))),
           (''proposal_id'', Scalar (row_get row ''proposal_id'' (SStr ''Unknown'')))])))"

definition search_alma_by_position ::
  "'f env \<Rightarrow> 'f \<Rightarrow> 'f \<Rightarrow> 'f \<Rightarrow> bool \<Rightarrow> ('f, 'f response) comp" where
  "search_alma_by_position env ra_degrees dec_degrees radius_arcmin public_only =
     (if \<not> PYVO_AVAILABLE env then ret (error_response ''pyvo library not installed'')
      else try_except
        (cbind (lift (tap_service env tap_url)) (\<lambda>service.
         cbind (lift (f_truediv (fops env) radius_arcmin (f_lit (fops env) ''60.0''))) (\<lambda>radius_deg.
         cbind (service_search env (position_query (fops env) ra_degrees dec_degrees radius_deg)) (\<lambda>df.
         if df_empty df then
           ret [(''count'', VInt 0),
                (''position'', PyDict [(''ra'', VFloat ra_degrees), (''dec'', VFloat dec_degrees)]),
                (''observations'', PyList []),
                (''summary'', VStr (''No ALMA observations at RA='' @ f_fixed4 (fops env) ra_degrees
                    @ '', Dec='' @ f_fixed4 (fops env) dec_degrees))]
         else
           cbind (lift (mapE (position_obs (fops env)) (df_head 20 df))) (\<lambda>observations.
           ret [(''count'', VNat (df_len df)),
                (''showing'', VNat (min 20 (df_len df))),
                (''position'', PyDict [(''ra'', VFloat ra_degrees), (''dec'', VFloat dec_degrees)]),
                (''observations'', PyList observations),
                (''summary'', VStr (''Found '' @ decimal (df_len df)
                    @ '' ALMA observations near RA='' @ f_fixed4 (fops env) ra_degrees
                    @ '', Dec='' @ f_fixed4 (fops env) dec_degrees))])))))
        (\<lambda>e. ret (error_response (''Position search failed: '' @ exc_str e))))"

section \<open>Tool 1: search by target name\<close>

definition target_obs :: "'f float_ops \<Rightarrow> (string \<times> 'f scalar) list \<Rightarrow> exn + 'f pyval" where
  "target_obs ops row =
     (case py_round ops (row_get row ''s_ra'' (row_get row ''ra'' (SInt 0))) 4 of Inl e \<Rightarrow> Inl e
      | Inr ra \<Rightarrow>
     (case py_round ops (row_get row ''s_dec'' (row_get row ''dec'' (SInt 0))) 4 of Inl e \<Rightarrow> Inl e
      | Inr dec \<Rightarrow>
     (case py_float ops
             (let t = row_get row ''t_exptime'' (row_get row ''integration_time'' (SInt 0))
              in if py_truthy ops t then t else SInt 0) of Inl e \<Rightarrow> Inl e
      | Inr integration_time \<Rightarrow>
        Inr (PyDict
          [(''target'', Scalar (row_get row ''target_name'' (SStr ''Unknown''))),
           (''ra'', Scalar ra),
           (''dec'', Scalar dec),
           (''band'', VStr (py_str ops
               (row_get row ''band_list'' (row_get row ''band'' (SStr ''Unknown''))))),
           (''proposal_id'', Scalar
               (row_get row ''proposal_id'' (row_get row ''project_code'' (SStr ''Unknown'')))),
           (''integration_time_sec'', VFloat integration_time)]))))"

text \<open>
  The first \<^verbatim>\<open>try\<close> block either leaves the function with a response (\<open>Inl\<close>) or binds
  \<^verbatim>\<open>ra_deg\<close> and \<^verbatim>\<open>dec_deg\<close> (\<open>Inr\<close>).
\<close>

definition resolve_target :: "'f env \<Rightarrow> string \<Rightarrow> ('f, 'f response + 'f \<times> 'f) comp" where
  "resolve_target env target_name =
     try_except
       (cbind (simbad_query env target_name) (\<lambda>result.
        if simbad_no_match result then
          ret (Inl (error_response
                 (''Could not resolve '' @ sq @ target_name @ sq @ '' - not found in SIMBAD'')))
        else cbind (lift (table_coords env result)) (\<lambda>coord. ret (Inr coord))))
       (\<lambda>e. ret (Inl (error_response (''Failed to resolve target: '' @ exc_str e))))"

definition target_conesearch ::
  "'f env \<Rightarrow> string \<Rightarrow> 'f \<Rightarrow> 'f \<Rightarrow> 'f \<Rightarrow> bool \<Rightarrow> ('f, 'f response) comp" where
  "target_conesearch env target_name ra_deg dec_deg radius_arcmin public_only =
     cbind (lift (f_truediv (fops env) radius_arcmin (f_lit (fops env) ''60.0''))) (\<lambda>radius_deg.
     cbind (conesearch env ra_deg dec_deg radius_deg (Some public_only)) (\<lambda>res.
     let resolved = PyDict [(''ra'', VFloat (f_round (fops env) ra_deg 4)),
                            (''dec'', VFloat (f_round (fops env) dec_deg 4))]
     in case res of
       None \<Rightarrow>
         ret [(''count'', VInt 0), (''target_resolved_to'', resolved), (''observations'', PyList []),
              (''summary'', VStr (''No ALMA observations found for '' @ target_name))]
     | Some df \<Rightarrow>
         if df_empty df then
           ret [(''count'', VInt 0), (''target_resolved_to'', resolved),
                (''observations'', PyList []),
                (''summary'', VStr (''No ALMA observations found for '' @ target_name))]
         else
           cbind (lift (mapE (target_obs (fops env)) (df_head 20 df))) (\<lambda>observations.
           ret [(''count'', VNat (df_len df)),
                (''showing'', VNat (min 20 (df_len df))),
                (''target_resolved_to'', resolved),
                (''observations'', PyList observations),
                (''summary'', VStr (''Found '' @ decimal (df_len df)
                    @ '' ALMA observations for '' @ target_name))])))"

definition search_alma_by_target ::
  "'f env \<Rightarrow> string \<Rightarrow> 'f \<Rightarrow> bool \<Rightarrow> ('f, 'f response) comp" where
  "search_alma_by_target env target_name radius_arcmin public_only =
     (if \<not> SIMBAD_AVAILABLE env then
        ret (error_response ''astroquery not installed - cannot resolve target name'')
      else
        cbind (resolve_target env target_name) (\<lambda>r.
        case r of
          Inl response \<Rightarrow> ret response
        | Inr (ra_deg, dec_deg) \<Rightarrow>
            if ALMINER_AVAILABLE env then
              try_except
                (target_conesearch env target_name ra_deg dec_deg radius_arcmin public_only)
                (\<lambda>e. ret (error_response (''ALMA search failed: '' @ exc_str e)))
            else search_alma_by_position env ra_deg dec_deg radius_arcmin public_only))"

section \<open>Tool 3: search by proposal or PI\<close>

text \<open>\<^verbatim>\<open>f"LOWER(col) LIKE LOWER('%{value}%')"\<close> and \<^verbatim>\<open>f"col LIKE '%{value}%'"\<close>\<close>

definition like_lower :: "string \<Rightarrow> string \<Rightarrow> string" where
  "like_lower col v = ''LOWER('' @ col @ '') LIKE LOWER('%'' @ v @ ''%')''"










section \<open>Tool 4: line coverage\<close>




section \<open>Tool 5: archive information\<close>



section \<open>Tool 6: search by frequency range\<close>





section \<open>Tool 7: search by angular resolution\<close>




section \<open>Tool 8: custom query\<close>

text \<open>
  \<^verbatim>\<open>max_rows = min(max_rows, 1000)\<close>, and the insertion of a \<^verbatim>\<open>TOP\<close> clause:
  \<^verbatim>\<open>sql_upper = sql_query.upper().strip()\<close>, then, if \<^verbatim>\<open>'TOP' not in sql_upper and
  sql_upper.startswith('SELECT') and 'COUNT' not in sql_upper\<close>,
  \<^verbatim>\<open>sql_query = sql_query.replace('SELECT', f'SELECT TOP {max_rows}', 1)\<close>.
\<close>

definition limit_max_rows :: "int \<Rightarrow> int" where
  "limit_max_rows max_rows = min max_rows 1000"

definition add_top_clause :: "int \<Rightarrow> string \<Rightarrow> string" where
  "add_top_clause max_rows sql_query =
     (let sql_upper = py_strip (py_upper sql_query)
      in if \<not> py_contains (code_points ''TOP'') sql_upper
            \<and> py_startswith sql_upper (code_points ''SELECT'')
            \<and> \<not> py_contains (code_points ''COUNT'') sql_upper
         then py_replace_first ''SELECT'' (''SELECT TOP '' @ py_str_int max_rows) sql_query
         else sql_query)"

text \<open>The inner loop \<^verbatim>\<open>for col in df.columns: row_dict[col] = row[col]\<close>.\<close>

fun raw_row_dict ::
  "(string \<times> 'f scalar) list \<Rightarrow> string list \<Rightarrow> (string \<times> 'f pyval) list
   \<Rightarrow> exn + (string \<times> 'f pyval) list" where
  "raw_row_dict row [] row_dict = Inr row_dict"
| "raw_row_dict row (col # cols) row_dict =
     (case row_item row col of Inl e \<Rightarrow> Inl e
      | Inr val \<Rightarrow> raw_row_dict row cols (dict_set row_dict col (Scalar val)))"

definition raw_row :: "string list \<Rightarrow> (string \<times> 'f scalar) list \<Rightarrow> exn + 'f pyval" where
  "raw_row cols row = (case raw_row_dict row cols [] of Inl e \<Rightarrow> Inl e | Inr d \<Rightarrow> Inr (PyDict d))"

definition tap_query_hint :: string where
  "tap_query_hint = ''Check your SQL syntax. Query the 'ivoa.obscore' table. ''
                    @ ''Use single quotes for string values.''"

definition run_alma_tap_query :: "'f env \<Rightarrow> string \<Rightarrow> int \<Rightarrow> ('f, 'f response) comp" where
  "run_alma_tap_query env sql_query max_rows0 =
     (if \<not> PYVO_AVAILABLE env then ret (error_response ''pyvo library not installed'')
      else try_except
        (let max_rows = limit_max_rows max_rows0
         in cbind (lift (tap_service env tap_url)) (\<lambda>service.
            cbind (service_search env (add_top_clause max_rows sql_query)) (\<lambda>df.
            if df_empty df then
              ret [(''count'', VInt 0),
                   (''columns'', PyList (map VStr (df_columns df))),
                   (''rows'', PyList []),
                   (''summary'', VStr ''Query returned no results'')]
            else
              cbind (lift (mapE (raw_row (df_columns df)) (df_head max_rows df))) (\<lambda>rows.
              ret [(''count'', VNat (df_len df)),
                   (''showing'', VInt (min max_rows (int (df_len df)))),
                   (''columns'', PyList (map VStr (df_columns df))),
                   (''rows'', PyList rows),
                   (''summary'', VStr (''Query returned '' @ decimal (df_len df) @ '' rows''))]))))
        (\<lambda>e. ret [(''error'', VStr (''TAP query failed: '' @ exc_str e)),
                  (''hint'', VStr tap_query_hint)]))"

text \<open>The default \<^verbatim>\<open>max_rows: int = 100\<close>.\<close>

definition run_alma_tap_query_default :: "'f env \<Rightarrow> string \<Rightarrow> ('f, 'f response) comp" where
  "run_alma_tap_query_default env sql_query = run_alma_tap_query env sql_query 100"

section \<open>Tool 9: search by source name\<close>



text \<open>\<^verbatim>\<open>df[col].unique().tolist()[:10]\<close>\<close>

definition unique_top10 :: "'f dataframe \<Rightarrow> string \<Rightarrow> exn + 'f pyval" where
  "unique_top10 df col =
     (case df_unique df col of Inl e \<Rightarrow> Inl e
      | Inr vs \<Rightarrow> Inr (PyList (map Scalar (take 10 vs))))"


section \<open>Tool 10: search by bibliography\<close>





section \<open>Tool 11: search by member OUS identifier\<close>

definition member_ous_query :: "string \<Rightarrow> string" where
  "member_ous_query normalized_uid =
     ''\<newline>'' @
     ''        SELECT *\<newline>'' @
     ''        FROM ivoa.obscore \<newline>'' @
     ''        WHERE member_ous_uid = '' @ sq @ normalized_uid @ sq @ ''\<newline>'' @
     ''        ''"

definition member_ous_obs :: "'f float_ops \<Rightarrow> (string \<times> 'f scalar) list \<Rightarrow> exn + 'f pyval" where
  "member_ous_obs ops row =
     (case py_float ops (row_get row ''s_ra'' (SInt 0)) of Inl e \<Rightarrow> Inl e
      | Inr ra \<Rightarrow>
     (case py_float ops (row_get row ''s_dec'' (SInt 0)) of Inl e \<Rightarrow> Inl e
      | Inr dec \<Rightarrow>
     (case py_float ops (row_get row ''frequency'' (SInt 0)) of Inl e \<Rightarrow> Inl e
      | Inr frequency \<Rightarrow>
     (case py_float ops (row_get row ''s_resolution'' (SInt 0)) of Inl e \<Rightarrow> Inl e
      | Inr resolution \<Rightarrow>
        Inr (PyDict
          [(''target'', Scalar (row_get row ''target_name'' (SStr ''Unknown''))),
           (''ra'', VFloat (f_round ops ra 4)),
           (''dec'', VFloat (f_round ops dec 4)),
           (''band'', VStr (py_str ops (row_get row ''band_list'' (SStr ''Unknown'')))),
           (''proposal_id'', Scalar (row_get row ''proposal_id'' (SStr ''Unknown''))),
           (''frequency_ghz'', VFloat (f_round ops frequency 2)),
           (''resolution_arcsec'', VFloat (f_round ops resolution 3)),
           (''data_type'', Scalar (row_get row ''dataproduct_type'' (SStr ''Unknown''))),
           (''access_url'', Scalar (row_get row ''access_url'' (SStr ''Unknown'')))])))))"

definition search_alma_by_member_ous :: "'f env \<Rightarrow> string \<Rightarrow> ('f, 'f response) comp" where
  "search_alma_by_member_ous env member_ous_id =
     (if \<not> PYVO_AVAILABLE env then ret (error_response ''pyvo library not installed'')
      else try_except
        (cbind (lift (tap_service env tap_url)) (\<lambda>service.
         let normalized_uid = normalize_uid member_ous_id
         in cbind (service_search env (member_ous_query normalized_uid)) (\<lambda>df.
         if df_empty df then
           ret [(''count'', VInt 0),
                (''member_ous_id'', VStr normalized_uid),
                (''observations'', PyList []),
                (''summary'', VStr (''No ALMA data found for Member OUS ID '' @ sq
                    @ normalized_uid @ sq))]
         else
           cbind (lift (mapE (member_ous_obs (fops env)) (df_rows df))) (\<lambda>observations.
           ret [(''count'', VNat (df_len df)),
                (''member_ous_id'', VStr normalized_uid),
                (''observations'', PyList observations),
                (''summary'', VStr (''Found '' @ decimal (df_len df)
                    @ '' data products for Member OUS ID''))]))))
        (\<lambda>e. ret (error_response (''Member OUS search failed: '' @ exc_str e))))"

section \<open>Tool 12: search by data type\<close>

definition band_condition :: "int \<Rightarrow> string" where
  "band_condition band = ''band_list LIKE '%'' @ py_str_int band @ ''%'' @ sq"

definition data_type_conditions ::
  "string \<Rightarrow> string option \<Rightarrow> string option \<Rightarrow> int option \<Rightarrow> string list" where
  "data_type_conditions data_type target_name science_keyword band =
     [''dataproduct_type = '' @ sq @ py_lower data_type @ sq, ''science_observation = 'T'' @ sq] @
     (if truthy_str target_name then [like_lower ''target_name'' (the target_name)] else []) @
     (if truthy_str science_keyword then [like_lower ''science_keyword'' (the science_keyword)]
      else []) @
     (if truthy_int band then [band_condition (the band)] else [])"

definition data_type_query :: "string \<Rightarrow> string" where
  "data_type_query where_clause =
     ''\<newline>'' @
     ''        SELECT TOP 100\<newline>'' @
     ''            target_name, s_ra, s_dec, band_list, proposal_id,\<newline>'' @
     ''            frequency, t_exptime, s_resolution, science_keyword\<newline>'' @
     ''        FROM ivoa.obscore \<newline>'' @
     ''        WHERE '' @ where_clause @ ''\<newline>'' @
     ''        ''"

definition data_type_obs :: "'f float_ops \<Rightarrow> (string \<times> 'f scalar) list \<Rightarrow> exn + 'f pyval" where
  "data_type_obs ops row =
     (case py_float ops (row_get row ''frequency'' (SInt 0)) of Inl e \<Rightarrow> Inl e
      | Inr frequency \<Rightarrow>
     (case py_float ops (row_get row ''s_resolution'' (SInt 0)) of Inl e \<Rightarrow> Inl e
      | Inr resolution \<Rightarrow>
        Inr (PyDict
          [(''target'', Scalar (row_get row ''target_name'' (SStr ''Unknown''))),
           (''band'', VStr (py_str ops (row_get row ''band_list'' (SStr ''Unknown'')))),
           (''proposal_id'', Scalar (row_get row ''proposal_id'' (SStr ''Unknown''))),
           (''frequency_ghz'', VFloat (f_round ops frequency 2)),
           (''resolution_arcsec'', VFloat (f_round ops resolution 3))])))"

definition search_alma_by_data_type ::
  "'f env \<Rightarrow> string \<Rightarrow> string option \<Rightarrow> string option \<Rightarrow> int option
   \<Rightarrow> ('f, 'f response) comp" where
  "search_alma_by_data_type env data_type target_name science_keyword band =
     (if \<not> PYVO_AVAILABLE env then ret (error_response ''pyvo library not installed'')
      else if py_lower data_type \<notin> set [''cube'', ''image''] then
        ret (error_response (''data_type must be 'cube' or 'image'' @ sq))
      else try_except
        (cbind (lift (tap_service env tap_url)) (\<lambda>service.
         let where_clause = py_join '' AND ''
               (data_type_conditions data_type target_name science_keyword band)
         in cbind (service_search env (data_type_query where_clause)) (\<lambda>df.
         if df_empty df then
           ret [(''count'', VInt 0),
                (''data_type'', VStr data_type),
                (''observations'', PyList []),
                (''summary'', VStr (''No '' @ data_type @ '' observations found matching criteria''))]
         else
           cbind (lift (mapE (data_type_obs (fops env)) (df_head 20 df))) (\<lambda>observations.
           ret [(''count'', VNat (df_len df)),
                (''showing'', VNat (min 20 (df_len df))),
                (''data_type'', VStr data_type),
                (''observations'', PyList observations),
                (''summary'', VStr (''Found '' @ decimal (df_len df) @ '' '' @ data_type
                    @ '' observations''))]))))
        (\<lambda>e. ret (error_response (''Data type search failed: '' @ exc_str e))))"

section \<open>Tool 13: search by science keyword\<close>

definition science_keyword_conditions ::
  "string \<Rightarrow> string option \<Rightarrow> int option \<Rightarrow> bool \<Rightarrow> string list" where
  "science_keyword_conditions science_keyword data_type band science_observation_only =
     [like_lower ''science_keyword'' science_keyword] @
     (if science_observation_only then [''science_observation = 'T'' @ sq] else []) @
     (if truthy_str data_type \<and> py_lower (the data_type) \<in> set [''cube'', ''image'']
      then [''dataproduct_type = '' @ sq @ py_lower (the data_type) @ sq] else []) @
     (if truthy_int band then [band_condition (the band)] else [])"

definition science_keyword_query :: "string \<Rightarrow> string" where
  "science_keyword_query where_clause =
     ''\<newline>'' @
     ''        SELECT TOP 100\<newline>'' @
     ''            target_name, s_ra, s_dec, band_list, proposal_id,\<newline>'' @
     ''            frequency, t_exptime, s_resolution, science_keyword, dataproduct_type\<newline>'' @
     ''        FROM ivoa.obscore \<newline>'' @
     ''        WHERE '' @ where_clause @ ''\<newline>'' @
     ''        ''"

definition science_keyword_obs :: "'f float_ops \<Rightarrow> (string \<times> 'f scalar) list \<Rightarrow> 'f pyval" where
  "science_keyword_obs ops row =
     PyDict
       [(''target'', Scalar (row_get row ''target_name'' (SStr ''Unknown''))),
        (''band'', VStr (py_str ops (row_get row ''band_list'' (SStr ''Unknown'')))),
        (''proposal_id'', Scalar (row_get row ''proposal_id'' (SStr ''Unknown''))),
        (''data_type'', Scalar (row_get row ''dataproduct_type'' (SStr ''Unknown''))),
        (''science_keyword'', Scalar (row_get row ''science_keyword'' (SStr ''Unknown'')))]"

definition search_alma_by_science_keyword ::
  "'f env \<Rightarrow> string \<Rightarrow> string option \<Rightarrow> int option \<Rightarrow> bool \<Rightarrow> ('f, 'f response) comp" where
  "search_alma_by_science_keyword env science_keyword data_type band science_observation_only =
     (if \<not> PYVO_AVAILABLE env then ret (error_response ''pyvo library not installed'')
      else try_except
        (cbind (lift (tap_service env tap_url)) (\<lambda>service.
         let where_clause = py_join '' AND ''
               (science_keyword_conditions science_keyword data_type band science_observation_only)
         in cbind (service_search env (science_keyword_query where_clause)) (\<lambda>df.
         if df_empty df then
           ret [(''count'', VInt 0),
                (''science_keyword'', VStr science_keyword),
                (''observations'', PyList []),
                (''summary'', VStr (''No observations found with science keyword '' @ sq
                    @ science_keyword @ sq))]
         else
           cbind (lift (unique_top10 df ''target_name'')) (\<lambda>unique_targets.
           ret [(''count'', VNat (df_len df)),
                (''showing'', VNat (min 20 (df_len df))),
                (''science_keyword'', VStr science_keyword),
                (''unique_targets'', unique_targets),
                (''observations'', PyList (map (science_keyword_obs (fops env)) (df_head 20 df))),
                (''summary'', VStr (''Found '' @ decimal (df_len df)
                    @ '' observations with science keyword '' @ sq @ science_keyword @ sq))]))))
        (\<lambda>e. ret (error_response (''Science keyword search failed: '' @ exc_str e))))"

section \<open>Tool 14: search by proposal abstract\<close>





section \<open>Tool 15: search by sensitivity\<close>

text \<open>
  \<^verbatim>\<open>if sensitivity_type.lower() == "continuum": sens_column = "cont_sensitivity_bandwidth"\<close>
  \<^verbatim>\<open>else: sens_column = "sensitivity_10kms"\<close>
\<close>

definition sens_column :: "string \<Rightarrow> string" where
  "sens_column sensitivity_type =
     (if py_lower sensitivity_type = ''continuum'' then ''cont_sensitivity_bandwidth''
      else ''sensitivity_10kms'')"

definition sensitivity_conditions ::
  "'f float_ops \<Rightarrow> string \<Rightarrow> 'f \<Rightarrow> string option \<Rightarrow> int option \<Rightarrow> string list" where
  "sensitivity_conditions ops column max_sensitivity_mjy target_name band =
     [column @ '' <= '' @ f_repr ops max_sensitivity_mjy,
      column @ '' > 0'',
      ''science_observation = 'T'' @ sq] @
     (if truthy_str target_name then [like_lower ''target_name'' (the target_name)] else []) @
     (if truthy_int band then [band_condition (the band)] else [])"

definition sensitivity_query :: "string \<Rightarrow> string \<Rightarrow> string" where
  "sensitivity_query column where_clause =
     ''\<newline>'' @
     ''        SELECT TOP 100\<newline>'' @
     ''            target_name, s_ra, s_dec, band_list, proposal_id,\<newline>'' @
     ''            '' @ column @ '' as sensitivity, s_resolution, frequency\<newline>'' @
     ''        FROM ivoa.obscore \<newline>'' @
     ''        WHERE '' @ where_clause @ ''\<newline>'' @
     ''        ORDER BY '' @ column @ ''\<newline>'' @
     ''        ''"

definition sensitivity_obs :: "'f float_ops \<Rightarrow> (string \<times> 'f scalar) list \<Rightarrow> exn + 'f pyval" where
  "sensitivity_obs ops row =
     (case py_float ops (row_get row ''sensitivity'' (SInt 0)) of Inl e \<Rightarrow> Inl e
      | Inr sensitivity \<Rightarrow>
     (case py_float ops (row_get row ''s_resolution'' (SInt 0)) of Inl e \<Rightarrow> Inl e
      | Inr resolution \<Rightarrow>
        Inr (PyDict
          [(''target'', Scalar (row_get row ''target_name'' (SStr ''Unknown''))),
           (''sensitivity_mjy'', VFloat (f_round ops sensitivity 4)),
           (''band'', VStr (py_str ops (row_get row ''band_list'' (SStr ''Unknown'')))),
           (''resolution_arcsec'', VFloat (f_round ops resolution 3)),
           (''proposal_id'', Scalar (row_get row ''proposal_id'' (SStr ''Unknown'')))])))"

definition search_alma_by_sensitivity ::
  "'f env \<Rightarrow> 'f \<Rightarrow> string \<Rightarrow> string option \<Rightarrow> int option \<Rightarrow> ('f, 'f response) comp" where
  "search_alma_by_sensitivity env max_sensitivity_mjy sensitivity_type target_name band =
     (if \<not> PYVO_AVAILABLE env then ret (error_response ''pyvo library not installed'')
      else try_except
        (cbind (lift (tap_service env tap_url)) (\<lambda>service.
         let column = sens_column sensitivity_type;
             where_clause = py_join '' AND ''
               (sensitivity_conditions (fops env) column max_sensitivity_mjy target_name band);
             limit_text = sensitivity_type @ '' sensitivity <= ''
               @ f_repr (fops env) max_sensitivity_mjy @ '' mJy/beam''
         in cbind (service_search env (sensitivity_query column where_clause)) (\<lambda>df.
         if df_empty df then
           ret [(''count'', VInt 0),
                (''max_sensitivity_mjy'', VFloat max_sensitivity_mjy),
                (''sensitivity_type'', VStr sensitivity_type),
                (''observations'', PyList []),
                (''summary'', VStr (''No observations found with '' @ limit_text))]
         else
           cbind (lift (mapE (sensitivity_obs (fops env)) (df_head 20 df))) (\<lambda>observations.
           ret [(''count'', VNat (df_len df)),
                (''showing'', VNat (min 20 (df_len df))),
                (''max_sensitivity_mjy'', VFloat max_sensitivity_mjy),
                (''sensitivity_type'', VStr sensitivity_type),
                (''observations'', PyList observations),
                (''summary'', VStr (''Found '' @ decimal (df_len df) @ '' observations with ''
                    @ limit_text))]))))
        (\<lambda>e. ret (error_response (''Sensitivity search failed: '' @ exc_str e))))"

section \<open>Tool 16: batch query\<close>

text \<open>
  The two variables the loop updates. \<^verbatim>\<open>results_by_source\<close> is a dict keyed by the source
  name: assigning to a name that is already a key replaces its entry and keeps its place.
\<close>

record 'f batch_state =
  results_by_source :: "(string \<times> 'f pyval) list"
  total_observations :: nat

definition batch_query :: "'f float_ops \<Rightarrow> 'f \<Rightarrow> 'f \<Rightarrow> 'f \<Rightarrow> string" where
  "batch_query ops ra_deg dec_deg radius_deg =
     ''\<newline>'' @
     ''                SELECT TOP 50\<newline>'' @
     ''                    target_name, band_list, proposal_id, t_exptime\<newline>'' @
     ''                FROM ivoa.obscore \<newline>'' @
     ''                WHERE CONTAINS(POINT('ICRS', s_ra, s_dec), \<newline>'' @
     ''                               CIRCLE('ICRS', '' @ f_repr ops ra_deg @ '', '' @ f_repr ops dec_deg @ '', '' @ f_repr ops radius_deg @ '')) = 1\<newline>'' @
     ''                ''"

definition set_result :: "'f batch_state \<Rightarrow> string \<Rightarrow> 'f pyval \<Rightarrow> 'f batch_state" where
  "set_result st source_name entry =
     st\<lparr>results_by_source := dict_set (results_by_source st) source_name entry\<rparr>"

definition not_resolved_entry :: "string \<Rightarrow> 'f pyval" where
  "not_resolved_entry source_name =
     PyDict [(''status'', VStr ''not_resolved''), (''count'', VInt 0),
             (''message'', VStr (''Could not resolve '' @ sq @ source_name @ sq @ '' in SIMBAD''))]"

definition coordinates_value :: "'f float_ops \<Rightarrow> 'f \<Rightarrow> 'f \<Rightarrow> 'f pyval" where
  "coordinates_value ops ra_deg dec_deg =
     PyDict [(''ra'', VFloat (f_round ops ra_deg 4)), (''dec'', VFloat (f_round ops dec_deg 4))]"

definition no_data_entry :: "'f float_ops \<Rightarrow> 'f \<Rightarrow> 'f \<Rightarrow> 'f pyval" where
  "no_data_entry ops ra_deg dec_deg =
     PyDict [(''status'', VStr ''no_data''), (''count'', VInt 0),
             (''coordinates'', coordinates_value ops ra_deg dec_deg),
             (''message'', VStr ''No ALMA observations found'')]"

definition found_entry :: "'f float_ops \<Rightarrow> nat \<Rightarrow> 'f \<Rightarrow> 'f \<Rightarrow> 'f scalar list \<Rightarrow> 'f pyval" where
  "found_entry ops n ra_deg dec_deg unique_bands =
     PyDict [(''status'', VStr ''found''), (''count'', VNat n),
             (''coordinates'', coordinates_value ops ra_deg dec_deg),
             (''bands_observed'', PyList (map Scalar unique_bands))]"

definition error_entry :: "exn \<Rightarrow> 'f pyval" where
  "error_entry e =
     PyDict [(''status'', VStr ''error''), (''count'', VInt 0), (''message'', VStr (exc_str e))]"

text \<open>
  The body of the inner \<^verbatim>\<open>try\<close> for one source name. It ends normally with the updated
  variables (\<open>Inr\<close>), or raises (\<open>Inl\<close>) with the variables as they are at that moment:
  \<^verbatim>\<open>total_observations += len(df)\<close> comes before \<^verbatim>\<open>df['band_list']\<close>, which may raise.
\<close>

definition batch_item_body ::
  "'f env \<Rightarrow> 'f \<Rightarrow> 'f batch_state \<Rightarrow> string \<Rightarrow> 'f call list
   \<Rightarrow> (exn \<times> 'f batch_state + 'f batch_state) \<times> 'f call list" where
  "batch_item_body env radius_arcmin st source_name calls =
     (case simbad_query env source_name calls of
        (Inl e, calls1) \<Rightarrow> (Inl (e, st), calls1)
      | (Inr result, calls1) \<Rightarrow>
          if simbad_no_match result then
            (Inr (set_result st source_name (not_resolved_entry source_name)), calls1)
          else
           (case table_coords env result of
              Inl e \<Rightarrow> (Inl (e, st), calls1)
            | Inr (ra_deg, dec_deg) \<Rightarrow>
           (case f_truediv (fops env) radius_arcmin (f_lit (fops env) ''60.0'') of
              Inl e \<Rightarrow> (Inl (e, st), calls1)
            | Inr radius_deg \<Rightarrow>
           (case tap_service env tap_url of
              Inl e \<Rightarrow> (Inl (e, st), calls1)
            | Inr service \<Rightarrow>
           (case service_search env (batch_query (fops env) ra_deg dec_deg radius_deg) calls1 of
              (Inl e, calls2) \<Rightarrow> (Inl (e, st), calls2)
            | (Inr df, calls2) \<Rightarrow>
                if df_empty df then
                  (Inr (set_result st source_name (no_data_entry (fops env) ra_deg dec_deg)),
                   calls2)
                else
                  let st' = st\<lparr>total_observations := total_observations st + df_len df\<rparr>
                  in (case df_unique df ''band_list'' of
                        Inl e \<Rightarrow> (Inl (e, st'), calls2)
                      | Inr unique_bands \<Rightarrow>
                          (Inr (set_result st' source_name
                                  (found_entry (fops env) (df_len df) ra_deg dec_deg unique_bands)),
                           calls2)))))))"

text \<open>One round of the loop: the body under its handler, which records the error entry.\<close>

definition batch_item ::
  "'f env \<Rightarrow> 'f \<Rightarrow> 'f batch_state \<Rightarrow> string \<Rightarrow> 'f call list
   \<Rightarrow> 'f batch_state \<times> 'f call list" where
  "batch_item env radius_arcmin st source_name calls =
     (case batch_item_body env radius_arcmin st source_name calls of
        (Inl (e, st'), calls') \<Rightarrow> (set_result st' source_name (error_entry e), calls')
      | (Inr st', calls') \<Rightarrow> (st', calls'))"

fun batch_loop ::
  "'f env \<Rightarrow> 'f \<Rightarrow> string list \<Rightarrow> 'f batch_state \<Rightarrow> 'f call list
   \<Rightarrow> 'f batch_state \<times> 'f call list" where
  "batch_loop env radius_arcmin [] st calls = (st, calls)"
| "batch_loop env radius_arcmin (source_name # rest) st calls =
     (case batch_item env radius_arcmin st source_name calls of
        (st', calls') \<Rightarrow> batch_loop env radius_arcmin rest st' calls')"

text \<open>\<^verbatim>\<open>s.get("status") == "found"\<close> on an entry of the result map.\<close>

definition has_status :: "string \<Rightarrow> 'f pyval \<Rightarrow> bool" where
  "has_status tag entry =
     (case entry of PyDict d \<Rightarrow> map_of d ''status'' = Some (VStr tag) | _ \<Rightarrow> False)"

definition batch_response :: "nat \<Rightarrow> 'f batch_state \<Rightarrow> 'f response" where
  "batch_response n st =
     (let sources_with_data = length (filter (has_status ''found'') (map snd (results_by_source st)))
      in [(''total_sources_queried'', VNat n),
          (''sources_with_alma_data'', VNat sources_with_data),
          (''total_observations'', VNat (total_observations st)),
          (''results_by_source'', PyDict (results_by_source st)),
          (''summary'', VStr (decimal sources_with_data @ '' of '' @ decimal n
              @ '' sources have ALMA observations''))])"

definition query_alma_multiple_sources ::
  "'f env \<Rightarrow> string list \<Rightarrow> 'f \<Rightarrow> ('f, 'f response) comp" where
  "query_alma_multiple_sources env source_names0 radius_arcmin =
     (if \<not> SIMBAD_AVAILABLE env then
        ret (error_response ''astroquery not installed - cannot resolve target names'')
      else if \<not> PYVO_AVAILABLE env then ret (error_response ''pyvo library not installed'')
      else
        let source_names = take 20 source_names0
        in try_except
          (\<lambda>calls.
             case batch_loop env radius_arcmin source_names
                    \<lparr>results_by_source = [], total_observations = 0\<rparr> calls of
               (st, calls') \<Rightarrow> (Inr (batch_response (length source_names) st), calls'))
          (\<lambda>e. ret (error_response (''Batch query failed: '' @ exc_str e))))"

section \<open>The tool facade\<close>



section \<open>Reading responses and queries\<close>


definition error_text :: "'f response \<Rightarrow> string option" where
  "error_text response =
     (case map_of response ''error'' of Some (Scalar (SStr msg)) \<Rightarrow> Some msg | _ \<Rightarrow> None)"





section \<open>Outcomes of a tool call\<close>






section \<open>Reading the calls\<close>

text \<open>The TAP queries among the calls, in the order in which they were sent.\<close>

definition tap_queries :: "'f call list \<Rightarrow> string list" where
  "tap_queries calls = concat (map (\<lambda>c. case c of TapSearch query \<Rightarrow> [query] | _ \<Rightarrow> []) calls)"

section \<open>Reading the batch result\<close>

text \<open>
  The source names the server asked SIMBAD to resolve, in the order of the calls; the
  names and the entries of the per-name result map of a batch response; and the shape of
  an entry: a status tag, and a message on every entry but those with status \<open>found\<close>.
\<close>

definition resolved_names :: "'f call list \<Rightarrow> string list" where
  "resolved_names calls =
     concat (map (\<lambda>c. case c of SimbadQuery name \<Rightarrow> [name] | _ \<Rightarrow> []) calls)"

definition result_map :: "'f response \<Rightarrow> (string \<times> 'f pyval) list" where
  "result_map response =
     (case map_of response ''results_by_source'' of Some (PyDict d) \<Rightarrow> d | _ \<Rightarrow> [])"

definition entry_message :: "'f pyval \<Rightarrow> string option" where
  "entry_message entry =
     (case entry of
        PyDict d \<Rightarrow> (case map_of d ''message'' of Some (Scalar (SStr m)) \<Rightarrow> Some m | _ \<Rightarrow> None)
      | _ \<Rightarrow> None)"

definition entry_ok :: "'f pyval \<Rightarrow> bool" where
  "entry_ok entry =
     (has_status ''found'' entry \<or>
      (has_status ''no_data'' entry \<or> has_status ''not_resolved'' entry \<or> has_status ''error'' entry)
        \<and> entry_message entry \<noteq> None)"

section \<open>A concrete environment\<close>

text \<open>
  For evaluating the tools on concrete inputs: floats stand as the text of the expression
  that computes them, and the collaborators answer as follows. SIMBAD knows \<open>M87\<close>, raises
  for \<open>Crab\<close> and has no match for any other name; the cone search of \<^verbatim>\<open>alminer\<close> raises; the TAP
  service answers every query with one row.
\<close>

definition symbolic_floats :: "string float_ops" where
  "symbolic_floats =
     \<lparr>f_lit = (\<lambda>s. s),
      f_of_int = py_str_int,
      f_add = (\<lambda>x y. ''('' @ x @ '' + '' @ y @ '')''),
      f_mul = (\<lambda>x y. ''('' @ x @ '' * '' @ y @ '')''),
      f_truediv = (\<lambda>x y. Inr (''('' @ x @ '' / '' @ y @ '')'')),
      f_round = (\<lambda>x n. ''round('' @ x @ '', '' @ decimal n @ '')''),
      f_repr = (\<lambda>x. x),
      f_fixed4 = (\<lambda>x. ''format('' @ x @ '', .4f)''),
      f_is_zero = (\<lambda>x. x = ''0.0''),
      f_parse = (\<lambda>s. Inr s)\<rparr>"

definition demo_frame :: "string dataframe" where
  "demo_frame =
     \<lparr>df_columns = [''target_name'', ''band_list'', ''proposal_id''],
      df_rows = [[(''target_name'', SStr ''M87''), (''band_list'', SStr ''6''),
                  (''proposal_id'', SStr ''2017.1.00841.V'')]]\<rparr>"

definition demo_three_rows :: "string dataframe" where
  "demo_three_rows =
     \<lparr>df_columns = [''target_name'', ''band_list''],
      df_rows = [[(''target_name'', SStr ''M87''), (''band_list'', SStr ''3'')],
                 [(''target_name'', SStr ''M87''), (''band_list'', SStr ''6'')],
                 [(''target_name'', SStr ''M87''), (''band_list'', SStr ''7'')]]\<rparr>"

definition demo_env :: "string env" where
  "demo_env =
     \<lparr>ALMINER_AVAILABLE = True,
      PYVO_AVAILABLE = True,
      SIMBAD_AVAILABLE = True,
      fops = symbolic_floats,
      simbad_query_object = (\<lambda>calls name.
        if name = ''M87'' then Inr (Some [[(''RA'', ''12 30 49.42''), (''DEC'', ''+12 23 28.0'')]])
        else if name = ''Crab'' then Inl (Exn ''ConnectionError'' ''SIMBAD timed out'')
        else Inr None),
      skycoord = (\<lambda>ra_str dec_str. Inr (''187.7059'', ''12.3911'')),
      alminer_conesearch = (\<lambda>calls ra dec radius public.
        Inl (Exn ''ConnectionError'' ''archive unreachable'')),
      alminer_keysearch = (\<lambda>calls search_dict. Inr None),
      alminer_line_coverage = (\<lambda>df line_freq z. Inr (Some df)),
      tap_service = (\<lambda>url. Inr ()),
      tap_search = (\<lambda>calls query. Inr demo_frame)\<rparr>"

section \<open>Properties of the string functions\<close>

lemma py_replace_skip:
  "old \<noteq> [] \<Longrightarrow> hd old \<notin> set p \<Longrightarrow> py_replace old new (p @ r) = p @ py_replace old new r"
proof (induction p)
  case Nil
  then show ?case by simp
next
  case (Cons c cs)
  then have "\<not> py_startswith (c # cs @ r) old"
    by (cases old) (auto simp: py_startswith_def)
  with Cons show ?case by simp
qed

lemma py_replace_hit:
  "old \<noteq> [] \<Longrightarrow> py_replace old new (old @ r) = new @ py_replace old new r"
  by (cases old) (auto simp: py_startswith_def)

lemma join_no_triple:
  "\<forall>s\<in>set segs. s \<noteq> [] \<and> CHR ''_'' \<notin> set s \<Longrightarrow>
   py_replace ''___'' ''://'' (py_join ''_'' segs) = py_join ''_'' segs"
proof (induction "''_''" segs rule: py_join.induct)
  case 1
  then show ?case by simp
next
  case (2 x)
  then show ?case using py_replace_skip [of "''___''" x "''://''" "[]"] by simp
next
  case (3 x y ys)
  from 3 obtain c cs where y: "y = c # cs" and c: "c \<noteq> CHR ''_''"
    by (cases y) auto
  have rest: "py_replace ''___'' ''://'' (py_join ''_'' (y # ys)) = py_join ''_'' (y # ys)"
    using 3 by simp
  have "py_join ''_'' (y # ys) = c # tl (py_join ''_'' (y # ys))"
    using y by (cases ys) auto
  then obtain t where t: "py_join ''_'' (y # ys) = c # t" by blast
  have "py_replace ''___'' ''://'' (''_'' @ py_join ''_'' (y # ys)) = ''_'' @ py_join ''_'' (y # ys)"
    using rest c unfolding t by (simp add: py_startswith_def)
  moreover have "py_replace ''___'' ''://'' (x @ ''_'' @ py_join ''_'' (y # ys))
      = x @ py_replace ''___'' ''://'' (''_'' @ py_join ''_'' (y # ys))"
    using 3 by (intro py_replace_skip) auto
  ultimately show ?case by simp
qed

lemma join_slash:
  "\<forall>s\<in>set segs. CHR ''_'' \<notin> set s \<Longrightarrow>
   py_replace ''_'' ''/'' (py_join ''_'' segs) = py_join ''/'' segs"
proof (induction "''_''" segs rule: py_join.induct)
  case 1
  then show ?case by simp
next
  case (2 x)
  then show ?case using py_replace_skip [of "''_''" x "''/''" "[]"] by simp
next
  case (3 x y ys)
  have "py_replace ''_'' ''/'' (x @ ''_'' @ py_join ''_'' (y # ys))
      = x @ py_replace ''_'' ''/'' (''_'' @ py_join ''_'' (y # ys))"
    using 3 by (intro py_replace_skip) auto
  also have "py_replace ''_'' ''/'' (''_'' @ py_join ''_'' (y # ys))
      = ''/'' @ py_replace ''_'' ''/'' (py_join ''_'' (y # ys))"
    by (rule py_replace_hit) simp
  finally show ?case using 3 by simp
qed

lemma normalize_uid_alternate_form:
  assumes "CHR ''_'' \<notin> set p" and "\<forall>s\<in>set segs. s \<noteq> [] \<and> CHR ''_'' \<notin> set s"
  shows "normalize_uid (p @ ''___'' @ py_join ''_'' segs) = p @ ''://'' @ py_join ''/'' segs"
proof -
  have a: "py_replace ''___'' ''://'' (p @ ''___'' @ py_join ''_'' segs)
      = p @ ''://'' @ py_join ''_'' segs"
    using assms py_replace_skip [of "''___''" p "''://''" "''___'' @ py_join ''_'' segs"]
      py_replace_hit [of "''___''" "''://''" "py_join ''_'' segs"] join_no_triple [of segs]
    by simp
  have b: "py_replace ''_'' ''/'' (p @ ''://'' @ py_join ''_'' segs)
      = p @ py_replace ''_'' ''/'' (''://'' @ py_join ''_'' segs)"
    using assms by (intro py_replace_skip) auto
  have c: "py_replace ''_'' ''/'' (''://'' @ py_join ''_'' segs)
      = ''://'' @ py_replace ''_'' ''/'' (py_join ''_'' segs)"
    using py_replace_skip [of "''_''" "''://''" "''/''" "py_join ''_'' segs"] by simp
  show ?thesis
    unfolding normalize_uid_def a b c using assms join_slash [of segs] by simp
qed

section \<open>Computations and the concrete environment\<close>

lemmas comp_defs = ret_def lift_def cbind_def try_except_def remote_def

lemma demo_simps:
  "PYVO_AVAILABLE demo_env" "SIMBAD_AVAILABLE demo_env" "ALMINER_AVAILABLE demo_env"
  "tap_service demo_env = (\<lambda>url. Inr ())" "tap_search demo_env = (\<lambda>calls query. Inr demo_frame)"
  "fops demo_env = symbolic_floats"
  by (simp_all add: demo_env_def)

section \<open>Identifier normalisation (C5)\<close>

lemma member_ous_calls:
  assumes "PYVO_AVAILABLE env" and "tap_service env tap_url = Inr u"
  shows "snd (search_alma_by_member_ous env member_ous_id calls) =
     calls @ [TapSearch (member_ous_query (normalize_uid member_ous_id))]"
  using assms
  by (simp add: search_alma_by_member_ous_def comp_defs service_search_def Let_def
      split: sum.splits prod.splits)

text \<open>
  C5. A dataset identifier in the underscore-delimited form is a prefix, three underscores
  and the segments joined by single underscores, where neither the prefix nor a segment
  holds an underscore and no segment is empty. The normaliser rewrites every such
  identifier to the URI form: the group of three underscores becomes \<open>://\<close> and every
  later underscore becomes \<open>/\<close>. The member-OUS search, with the TAP library present,
  sends its query with the rewritten identifier in the equality filter.
\<close>

theorem member_ous_id_normalized:
  assumes "CHR ''_'' \<notin> set p" and "\<forall>s\<in>set segs. s \<noteq> [] \<and> CHR ''_'' \<notin> set s"
    and "PYVO_AVAILABLE env" and "tap_service env tap_url = Inr u"
  shows "normalize_uid (p @ ''___'' @ py_join ''_'' segs) = p @ ''://'' @ py_join ''/'' segs
         \<and> snd (search_alma_by_member_ous env (p @ ''___'' @ py_join ''_'' segs) calls) =
             calls @ [TapSearch (member_ous_query (p @ ''://'' @ py_join ''/'' segs))]"
  using normalize_uid_alternate_form [OF assms(1,2)] member_ous_calls [OF assms(3,4)]
  by simp

text \<open>The identifier of the specification's scenario.\<close>

theorem member_ous_id_normalized_witness:
  "normalize_uid ''uid___A001_X123_X456'' = ''uid://A001/X123/X456''
   \<and> snd (search_alma_by_member_ous demo_env ''uid___A001_X123_X456'' []) =
       [TapSearch (member_ous_query ''uid://A001/X123/X456'')]"
proof -
  have p: "CHR ''_'' \<notin> set ''uid''" by simp
  have s: "\<forall>s\<in>set [''A001'', ''X123'', ''X456'']. s \<noteq> [] \<and> CHR ''_'' \<notin> set s" by simp
  have a: "PYVO_AVAILABLE demo_env" and u: "tap_service demo_env tap_url = Inr ()"
    by (simp_all add: demo_simps)
  from member_ous_id_normalized [OF p s a u, of "[]"] show ?thesis by simp
qed

section \<open>The measurement column of the sensitivity search (C3)\<close>

lemma sens_col_cases:
  "sens_column ''continuum'' = ''cont_sensitivity_bandwidth''"
  "sens_column ''line'' = ''sensitivity_10kms''"
  "sens_column ''Continuum'' = ''cont_sensitivity_bandwidth''"
  "sens_column ''spectral'' = ''sensitivity_10kms''"
  by (simp_all add: sens_column_def py_lower_def py_lower_char_def)

lemma sensitivity_calls:
  assumes "PYVO_AVAILABLE env" and "tap_service env tap_url = Inr u"
  shows "snd (search_alma_by_sensitivity env m t tn b calls) =
           calls @ [TapSearch (sensitivity_query (sens_column t)
              (py_join '' AND '' (sensitivity_conditions (fops env) (sens_column t) m tn b)))]"
  using assms
  by (simp add: search_alma_by_sensitivity_def comp_defs service_search_def Let_def
      split: sum.splits prod.splits)

text \<open>
  C3, as the code has it. With the TAP library present, the sensitivity search sends one
  query, built on the column the discriminator selects: \<open>continuum\<close> in any letter case
  selects \<open>cont_sensitivity_bandwidth\<close>, and every other value, \<open>line\<close> among them, selects
  \<open>sensitivity_10kms\<close>.
\<close>

theorem sensitivity_column_choice:
  assumes "PYVO_AVAILABLE env" and "tap_service env tap_url = Inr u"
  shows "snd (search_alma_by_sensitivity env m t tn b calls) =
           calls @ [TapSearch (sensitivity_query (sens_column t)
              (py_join '' AND '' (sensitivity_conditions (fops env) (sens_column t) m tn b)))]
         \<and> sens_column t = (if py_lower t = ''continuum'' then ''cont_sensitivity_bandwidth''
                            else ''sensitivity_10kms'')
         \<and> sens_column ''continuum'' = ''cont_sensitivity_bandwidth''
         \<and> sens_column ''line'' = ''sensitivity_10kms''"
proof (intro conjI)
  show "snd (search_alma_by_sensitivity env m t tn b calls) =
           calls @ [TapSearch (sensitivity_query (sens_column t)
              (py_join '' AND '' (sensitivity_conditions (fops env) (sens_column t) m tn b)))]"
    using assms by (rule sensitivity_calls)
  show "sens_column t = (if py_lower t = ''continuum'' then ''cont_sensitivity_bandwidth''
                            else ''sensitivity_10kms'')"
    by (simp only: sens_column_def)
qed (simp_all add: sens_col_cases)

theorem sensitivity_column_choice_witness:
  "PYVO_AVAILABLE demo_env \<and> tap_service demo_env tap_url = Inr ()
   \<and> snd (search_alma_by_sensitivity demo_env ''0.5'' ''line'' None None []) =
       [TapSearch (sensitivity_query ''sensitivity_10kms''
          (py_join '' AND ''
             (sensitivity_conditions symbolic_floats ''sensitivity_10kms'' ''0.5'' None None)))]"
proof -
  have p: "PYVO_AVAILABLE demo_env" and u: "tap_service demo_env tap_url = Inr ()"
    by (simp_all add: demo_simps)
  from sensitivity_column_choice [OF p u, of "''0.5''" "''line''" None None "[]"] p u
  show ?thesis by (simp add: sens_col_cases demo_simps)
qed

text \<open>
  The claim's fallback fails at \<open>spectral\<close>, which is neither \<open>continuum\<close> nor \<open>line\<close>: the
  query is built on the line column.
\<close>

theorem sensitivity_fallback_counterexample:
  "sens_column ''spectral'' = ''sensitivity_10kms''
   \<and> sens_column ''spectral'' \<noteq> ''cont_sensitivity_bandwidth''
   \<and> snd (search_alma_by_sensitivity demo_env ''0.5'' ''spectral'' None None []) =
       [TapSearch (sensitivity_query ''sensitivity_10kms''
          (py_join '' AND ''
             (sensitivity_conditions symbolic_floats ''sensitivity_10kms'' ''0.5'' None None)))]"
  using sensitivity_calls [of demo_env "()" "''0.5''" "''spectral''" None None "[]"]
  by (simp add: sens_col_cases demo_simps)

section \<open>The row cap of the custom query (C4)\<close>

lemma tap_query_calls:
  assumes "PYVO_AVAILABLE env" and "tap_service env tap_url = Inr u"
  shows "snd (run_alma_tap_query env q n calls) =
     calls @ [TapSearch (add_top_clause (limit_max_rows n) q)]"
  using assms
  by (simp add: run_alma_tap_query_def comp_defs service_search_def Let_def
      split: sum.splits prod.splits)

lemma py_upper_space: "py_isspace c \<Longrightarrow> py_upper_char c = [of_char c]"
  unfolding py_isspace_def py_upper_char_def by (elim disjE | simp)+

lemma py_space_cp: "py_isspace c \<Longrightarrow> py_isspace_cp (of_char c)"
  unfolding py_isspace_def py_isspace_cp_def by (elim disjE | simp)+

lemma py_upper_spaces: "\<forall>c\<in>set ws. py_isspace c \<Longrightarrow> py_upper ws = code_points ws"
  by (induction ws) (simp_all add: py_upper_def code_points_def py_upper_space)

lemma py_upper_append: "py_upper (a @ b) = py_upper a @ py_upper b"
  by (simp add: py_upper_def)

lemma py_upper_SELECT: "py_upper ''SELECT'' = code_points ''SELECT''"
  by (simp add: py_upper_def py_upper_char_def code_points_def)

lemma strip_keeps_select:
  assumes "\<forall>n\<in>set ws. py_isspace_cp n"
  shows "py_startswith (py_strip (ws @ code_points ''SELECT'' @ r)) (code_points ''SELECT'')"
proof -
  have sel: "code_points ''SELECT'' = [83, 69, 76, 69, 67, 84]"
    by (simp add: code_points_def)
  have s: "\<not> py_isspace_cp 83" and t: "\<not> py_isspace_cp 84"
    by (simp_all add: py_isspace_cp_def)
  have a: "dropWhile py_isspace_cp (ws @ [83, 69, 76, 69, 67, 84] @ r) = [83, 69, 76, 69, 67, 84] @ r"
    using assms s by (simp add: dropWhile_append2)
  have "rev ([83, 69, 76, 69, 67, 84] @ r) = rev r @ 84 # [67, 69, 76, 69, 83 :: int]" by simp
  then have "dropWhile py_isspace_cp (rev ([83, 69, 76, 69, 67, 84] @ r)) =
      dropWhile py_isspace_cp (rev r) @ 84 # [67, 69, 76, 69, 83]"
    using t dropWhile_append3 [of py_isspace_cp 84 "rev r" "[67, 69, 76, 69, 83]"] by simp
  then have "py_strip (ws @ [83, 69, 76, 69, 67, 84] @ r) =
      [83, 69, 76, 69, 67, 84] @ rev (dropWhile py_isspace_cp (rev r))"
    unfolding py_strip_def a by simp
  then show ?thesis unfolding sel by (simp add: py_startswith_def)
qed

lemma replace_first_select:
  assumes "\<forall>c\<in>set ws. py_isspace c"
  shows "py_replace_first ''SELECT'' new (ws @ ''SELECT'' @ rest) = ws @ new @ rest"
  using assms
proof (induction ws)
  case Nil
  show ?case by (simp add: py_startswith_def)
next
  case (Cons c cs)
  from Cons.prems have "py_isspace c" by simp
  then have "c \<noteq> CHR ''S''"
    unfolding py_isspace_def by (elim disjE | simp)+
  then have no: "\<not> py_startswith (c # (cs @ ''SELECT'' @ rest)) ''SELECT''"
    by (simp add: py_startswith_def)
  from Cons.prems have "\<forall>c\<in>set cs. py_isspace c" by simp
  then have ih: "py_replace_first ''SELECT'' new (cs @ ''SELECT'' @ rest) = cs @ new @ rest"
    by (rule Cons.IH)
  have "py_replace_first ''SELECT'' new (c # (cs @ ''SELECT'' @ rest)) =
      c # py_replace_first ''SELECT'' new (cs @ ''SELECT'' @ rest)"
    using no by (simp only: py_replace_first.simps if_False)
  then show ?case unfolding ih by (simp only: append_Cons)
qed

lemma add_top_clause_select:
  assumes "\<forall>c\<in>set ws. py_isspace c"
    and "\<not> py_contains (code_points ''TOP'') (py_strip (py_upper (ws @ ''SELECT'' @ rest)))"
    and "\<not> py_contains (code_points ''COUNT'') (py_strip (py_upper (ws @ ''SELECT'' @ rest)))"
  shows "add_top_clause n (ws @ ''SELECT'' @ rest) = ws @ ''SELECT TOP '' @ py_str_int n @ rest"
proof -
  have up: "py_upper (ws @ ''SELECT'' @ rest) =
      code_points ws @ code_points ''SELECT'' @ py_upper rest"
    unfolding py_upper_append py_upper_SELECT using assms(1) by (simp only: py_upper_spaces)
  have "\<forall>n\<in>set (code_points ws). py_isspace_cp n"
    using assms(1) by (auto simp: code_points_def py_space_cp)
  then have st: "py_startswith (py_strip (py_upper (ws @ ''SELECT'' @ rest)))
      (code_points ''SELECT'')"
    unfolding up by (rule strip_keeps_select)
  have "add_top_clause n (ws @ ''SELECT'' @ rest) =
      py_replace_first ''SELECT'' (''SELECT TOP '' @ py_str_int n) (ws @ ''SELECT'' @ rest)"
    unfolding add_top_clause_def Let_def using assms(2,3) st by (simp only: simp_thms if_True)
  also have "\<dots> = ws @ (''SELECT TOP '' @ py_str_int n) @ rest"
    by (rule replace_first_select [OF assms(1)])
  finally show ?thesis by (simp only: append_assoc)
qed

text \<open>The rows of the response: the formatted first rows of the frame, up to the cap.\<close>

lemma mapE_length: "mapE f xs = Inr ys \<Longrightarrow> length ys = length xs"
  by (induction xs arbitrary: ys) (auto split: sum.splits)

lemma df_head_length: "0 \<le> n \<Longrightarrow> length (df_head n df) = min (nat n) (df_len df)"
  by (simp add: df_head_def df_len_def min.commute)

lemma tap_query_rows:
  assumes "PYVO_AVAILABLE env" and "tap_service env tap_url = Inr u"
    and "tap_search env calls (add_top_clause (limit_max_rows n) q) = Inr df"
    and "\<not> df_empty df"
    and "mapE (raw_row (df_columns df)) (df_head (limit_max_rows n) df) = Inr rows"
  shows "fst (run_alma_tap_query env q n calls) =
     Inr [(''count'', VNat (df_len df)),
          (''showing'', VInt (min (limit_max_rows n) (int (df_len df)))),
          (''columns'', PyList (map VStr (df_columns df))),
          (''rows'', PyList rows),
          (''summary'', VStr (''Query returned '' @ decimal (df_len df) @ '' rows''))]"
  using assms
  by (simp add: run_alma_tap_query_def comp_defs service_search_def Let_def)

text \<open>
  C4, as the code has it. The row cap in force is \<open>min max_rows 1000\<close>, 100 when the caller
  gives none; there is no lower bound. For a query text that is whitespace, then \<open>SELECT\<close>
  in capitals, then the rest, and that mentions neither \<open>TOP\<close> nor \<open>COUNT\<close> in any letter
  case, the query sent is the text with \<open>SELECT TOP cap\<close> in place of that \<open>SELECT\<close>.
  Whatever the query text, when the service answers with a frame that is not empty and whose first
  rows can be formatted, the response counts all the rows of the frame, reports
  \<open>min cap (number of rows)\<close> as shown, and carries the formatted rows of \<^verbatim>\<open>df.head(cap)\<close>:
  for a cap of 0 or more these are \<open>min cap (number of rows)\<close> rows.
\<close>

theorem raw_query_row_cap:
  assumes "PYVO_AVAILABLE env" and "tap_service env tap_url = Inr u"
    and "\<forall>c\<in>set ws. py_isspace c"
    and "\<not> py_contains (code_points ''TOP'') (py_strip (py_upper (ws @ ''SELECT'' @ rest)))"
    and "\<not> py_contains (code_points ''COUNT'') (py_strip (py_upper (ws @ ''SELECT'' @ rest)))"
  shows "snd (run_alma_tap_query env (ws @ ''SELECT'' @ rest) max_rows calls) =
           calls @ [TapSearch (ws @ ''SELECT TOP '' @ py_str_int (min max_rows 1000) @ rest)]
         \<and> limit_max_rows max_rows = min max_rows 1000
         \<and> run_alma_tap_query_default env (ws @ ''SELECT'' @ rest) =
             run_alma_tap_query env (ws @ ''SELECT'' @ rest) 100
         \<and> (tap_search env calls (add_top_clause (min max_rows 1000) q) = Inr df
              \<and> \<not> df_empty df
              \<and> mapE (raw_row (df_columns df)) (df_head (min max_rows 1000) df) = Inr rows \<longrightarrow>
            fst (run_alma_tap_query env q max_rows calls) =
              Inr [(''count'', VNat (df_len df)),
                   (''showing'', VInt (min (min max_rows 1000) (int (df_len df)))),
                   (''columns'', PyList (map VStr (df_columns df))),
                   (''rows'', PyList rows),
                   (''summary'', VStr (''Query returned '' @ decimal (df_len df) @ '' rows''))]
            \<and> length rows = length (df_head (min max_rows 1000) df)
            \<and> (0 \<le> max_rows \<longrightarrow> length rows = min (nat (min max_rows 1000)) (df_len df)))"
proof (intro conjI impI)
  show "snd (run_alma_tap_query env (ws @ ''SELECT'' @ rest) max_rows calls) =
      calls @ [TapSearch (ws @ ''SELECT TOP '' @ py_str_int (min max_rows 1000) @ rest)]"
    using tap_query_calls [OF assms(1,2)] add_top_clause_select [OF assms(3,4,5)]
    by (simp add: limit_max_rows_def)
  show "limit_max_rows max_rows = min max_rows 1000"
    by (simp add: limit_max_rows_def)
  show "run_alma_tap_query_default env (ws @ ''SELECT'' @ rest) =
      run_alma_tap_query env (ws @ ''SELECT'' @ rest) 100"
    by (simp add: run_alma_tap_query_default_def)
next
  assume h: "tap_search env calls (add_top_clause (min max_rows 1000) q) = Inr df
      \<and> \<not> df_empty df
      \<and> mapE (raw_row (df_columns df)) (df_head (min max_rows 1000) df) = Inr rows"
  then have a: "tap_search env calls (add_top_clause (limit_max_rows max_rows) q) = Inr df"
    and b: "\<not> df_empty df"
    and c: "mapE (raw_row (df_columns df)) (df_head (limit_max_rows max_rows) df) = Inr rows"
    by (simp_all add: limit_max_rows_def)
  show "fst (run_alma_tap_query env q max_rows calls) =
      Inr [(''count'', VNat (df_len df)),
           (''showing'', VInt (min (min max_rows 1000) (int (df_len df)))),
           (''columns'', PyList (map VStr (df_columns df))),
           (''rows'', PyList rows),
           (''summary'', VStr (''Query returned '' @ decimal (df_len df) @ '' rows''))]"
    using tap_query_rows [OF assms(1,2) a b c] by (simp add: limit_max_rows_def)
  show len: "length rows = length (df_head (min max_rows 1000) df)"
    using h mapE_length by blast
  assume "0 \<le> max_rows"
  then show "length rows = min (nat (min max_rows 1000)) (df_len df)"
    unfolding len by (simp add: df_head_length)
qed

theorem raw_query_row_cap_witness:
  "snd (run_alma_tap_query demo_env ''  SELECT s_ra FROM ivoa.obscore'' 5000 []) =
      [TapSearch ''  SELECT TOP 1000 s_ra FROM ivoa.obscore'']
   \<and> limit_max_rows 5000 = 1000
   \<and> fst (run_alma_tap_query (demo_env\<lparr>tap_search := \<lambda>calls query. Inr demo_three_rows\<rparr>)
        ''SELECT target_name, band_list FROM ivoa.obscore'' 2 []) =
      Inr [(''count'', VNat 3),
           (''showing'', VInt 2),
           (''columns'', PyList [VStr ''target_name'', VStr ''band_list'']),
           (''rows'', PyList [PyDict [(''target_name'', VStr ''M87''), (''band_list'', VStr ''3'')],
                              PyDict [(''target_name'', VStr ''M87''), (''band_list'', VStr ''6'')]]),
           (''summary'', VStr ''Query returned 3 rows'')]"
proof -
  let ?env = "demo_env\<lparr>tap_search := \<lambda>calls query. Inr demo_three_rows\<rparr>"
  let ?rows = "[PyDict [(''target_name'', VStr ''M87''), (''band_list'', VStr ''3'')],
                PyDict [(''target_name'', VStr ''M87''), (''band_list'', VStr ''6'')]] :: string pyval list"
  have s: "\<forall>c\<in>set ''  ''. py_isspace c" by (simp add: py_isspace_def)
  have t: "\<not> py_contains (code_points ''TOP'')
      (py_strip (py_upper (''  '' @ ''SELECT'' @ '' s_ra FROM ivoa.obscore'')))"
    by code_simp
  have c: "\<not> py_contains (code_points ''COUNT'')
      (py_strip (py_upper (''  '' @ ''SELECT'' @ '' s_ra FROM ivoa.obscore'')))"
    by code_simp
  have d: "py_str_int 1000 = ''1000''"
    by code_simp
  have d3: "decimal 3 = ''3''"
    by code_simp
  have p: "PYVO_AVAILABLE demo_env" and u: "tap_service demo_env tap_url = Inr ()"
    and p': "PYVO_AVAILABLE ?env" and u': "tap_service ?env tap_url = Inr ()"
    by (simp_all add: demo_env_def)
  have m: "min (5000::int) 1000 = 1000" and m': "min (2::int) 1000 = 2" by simp_all
  have f: "tap_search ?env []
      (add_top_clause 2 ''SELECT target_name, band_list FROM ivoa.obscore'') = Inr demo_three_rows"
    by simp
  have e: "\<not> df_empty demo_three_rows"
    by (simp add: df_empty_def demo_three_rows_def)
  have r: "mapE (raw_row (df_columns demo_three_rows)) (df_head 2 demo_three_rows) = Inr ?rows"
    by (simp add: demo_three_rows_def df_head_def raw_row_def row_item_def)
  have l: "df_len demo_three_rows = 3" "df_columns demo_three_rows = [''target_name'', ''band_list'']"
    by (simp_all add: df_len_def demo_three_rows_def)
  from raw_query_row_cap [OF p u s t c, of 5000 "[]"]
  have a: "snd (run_alma_tap_query demo_env ''  SELECT s_ra FROM ivoa.obscore'' 5000 []) =
      [TapSearch ''  SELECT TOP 1000 s_ra FROM ivoa.obscore''] \<and> limit_max_rows 5000 = 1000"
    unfolding m d by simp
  from raw_query_row_cap [OF p' u' s t c, of 2 "[]"
      "''SELECT target_name, band_list FROM ivoa.obscore''" demo_three_rows ?rows] f e r
  have b: "fst (run_alma_tap_query ?env ''SELECT target_name, band_list FROM ivoa.obscore'' 2 []) =
      Inr [(''count'', VNat 3),
           (''showing'', VInt 2),
           (''columns'', PyList [VStr ''target_name'', VStr ''band_list'']),
           (''rows'', PyList ?rows),
           (''summary'', VStr ''Query returned 3 rows'')]"
    unfolding m' l d3 by simp
  from a b show ?thesis by simp
qed

text \<open>
  The claimed clamp into the interval from 1 to 1000 fails at \<open>max_rows = 0\<close>: the cap in
  force is 0, and it is the cap written into the query.
\<close>

theorem raw_query_row_cap_counterexample:
  "limit_max_rows 0 = 0
   \<and> snd (run_alma_tap_query demo_env ''SELECT * FROM ivoa.obscore'' 0 []) =
       [TapSearch ''SELECT TOP 0 * FROM ivoa.obscore'']"
proof -
  have "add_top_clause 0 ''SELECT * FROM ivoa.obscore'' = ''SELECT TOP 0 * FROM ivoa.obscore''"
    by code_simp
  then show ?thesis
    using tap_query_calls [of demo_env "()" "''SELECT * FROM ivoa.obscore''" 0 "[]"]
    by (simp add: limit_max_rows_def demo_simps)
qed

text \<open>
  The insertion looks for \<open>SELECT\<close> in capitals only, while the test that precedes it
  ignores case: a query written in lower case is sent without any cap.
\<close>

lemma lowercase_select_gets_no_cap:
  "add_top_clause 50 ''select * from ivoa.obscore'' = ''select * from ivoa.obscore''"
  by code_simp

text \<open>
  The whitespace that \<^verbatim>\<open>strip\<close> removes includes the no-break space: a query that starts
  with one still gets the cap.
\<close>

lemma no_break_space_is_stripped:
  "add_top_clause 50 (CHR 0xA0 # ''SELECT * FROM ivoa.obscore'') =
     CHR 0xA0 # ''SELECT TOP 50 * FROM ivoa.obscore''"
  by code_simp

section \<open>The fallback of the target search (C2)\<close>

lemma resolve_target_ok:
  assumes "simbad_query_object env calls name = Inr (Some tbl)" and "tbl \<noteq> []"
    and "table_coords env (Some tbl) = Inr (ra, dec)"
  shows "resolve_target env name calls = (Inr (Inr (ra, dec)), calls @ [SimbadQuery name])"
  using assms
  by (simp add: resolve_target_def try_except_def cbind_def simbad_query_def remote_def
      simbad_no_match_def lift_def ret_def)

lemma target_after_resolution:
  assumes "SIMBAD_AVAILABLE env"
    and "simbad_query_object env calls name = Inr (Some tbl)" and "tbl \<noteq> []"
    and "table_coords env (Some tbl) = Inr (ra, dec)"
  shows "search_alma_by_target env name r p calls =
     (if ALMINER_AVAILABLE env then
        try_except (target_conesearch env name ra dec r p)
          (\<lambda>e. ret (error_response (''ALMA search failed: '' @ exc_str e)))
          (calls @ [SimbadQuery name])
      else search_alma_by_position env ra dec r p (calls @ [SimbadQuery name]))"
  using assms(1) resolve_target_ok [OF assms(2,3,4)]
  by (simp add: search_alma_by_target_def cbind_def)

lemma conesearch_raises:
  assumes "f_truediv (fops env) r (f_lit (fops env) ''60.0'') = Inr rd"
    and "alminer_conesearch env calls ra dec rd (Some p) = Inl e"
  shows "try_except (target_conesearch env name ra dec r p)
          (\<lambda>e. ret (error_response (''ALMA search failed: '' @ exc_str e))) calls =
         (Inr (error_response (''ALMA search failed: '' @ exc_str e)),
          calls @ [ConeSearch ra dec rd (Some p)])"
  using assms
  by (simp add: target_conesearch_def try_except_def cbind_def lift_def conesearch_def
      remote_def ret_def)

lemma tap_queries_append: "tap_queries (a @ b) = tap_queries a @ tap_queries b"
  by (simp add: tap_queries_def)

lemma resolve_target_no_tap:
  "tap_queries (snd (resolve_target env name calls)) = tap_queries calls"
  by (simp add: resolve_target_def comp_defs simbad_query_def tap_queries_def
      split: sum.splits prod.splits)

lemma resolve_target_calls:
  "snd (resolve_target env name calls) = calls @ [SimbadQuery name]"
  by (simp add: resolve_target_def comp_defs simbad_query_def
      split: sum.splits prod.splits)

lemma conesearch_no_tap:
  "tap_queries (snd (try_except (target_conesearch env name ra dec r p)
      (\<lambda>e. ret (error_response (''ALMA search failed: '' @ exc_str e))) calls)) =
   tap_queries calls"
  by (simp add: target_conesearch_def comp_defs conesearch_def tap_queries_def Let_def
      split: sum.splits prod.splits option.splits)

lemma target_no_tap:
  assumes "ALMINER_AVAILABLE env"
  shows "tap_queries (snd (search_alma_by_target env name r p calls)) = tap_queries calls"
proof (cases "SIMBAD_AVAILABLE env")
  case False
  then show ?thesis by (simp add: search_alma_by_target_def ret_def)
next
  case True
  obtain x c where rt: "resolve_target env name calls = (x, c)" by (cases "resolve_target env name calls")
  then have c: "tap_queries c = tap_queries calls"
    using resolve_target_no_tap [of env name calls] by simp
  show ?thesis
  proof (cases x)
    case (Inl e)
    then show ?thesis using True rt c by (simp add: search_alma_by_target_def cbind_def)
  next
    case (Inr v)
    show ?thesis
    proof (cases v)
      case (Inl resp)
      then show ?thesis using True rt c Inr by (simp add: search_alma_by_target_def cbind_def ret_def)
    next
      case (Inr coord)
      obtain ra dec where rd: "coord = (ra, dec)" by (cases coord)
      show ?thesis using True rt c \<open>x = Inr v\<close> Inr rd assms conesearch_no_tap [of env name ra dec r p c]
        by (simp add: search_alma_by_target_def cbind_def)
    qed
  qed
qed

text \<open>
  C2, as the code has it. Once SIMBAD has resolved the name, the target search runs the
  position search over TAP only when \<^verbatim>\<open>alminer\<close> is not installed, and then its answer is
  the answer of the position search. When \<^verbatim>\<open>alminer\<close> is installed and its cone search
  raises, the answer is the error response \<open>ALMA search failed: ...\<close> and the calls are the
  SIMBAD query and the cone search. When \<^verbatim>\<open>alminer\<close> is installed the target search sends
  no TAP query at all, whatever SIMBAD and the cone search answer: the TAP queries among the
  calls after the search are those made before it.
\<close>

theorem target_fallback_only_when_unavailable:
  "(SIMBAD_AVAILABLE env
      \<and> simbad_query_object env calls name = Inr (Some tbl) \<and> tbl \<noteq> []
      \<and> table_coords env (Some tbl) = Inr (ra, dec) \<longrightarrow>
    (\<not> ALMINER_AVAILABLE env \<longrightarrow>
       search_alma_by_target env name r p calls =
         search_alma_by_position env ra dec r p (calls @ [SimbadQuery name]))
    \<and> (ALMINER_AVAILABLE env
         \<and> f_truediv (fops env) r (f_lit (fops env) ''60.0'') = Inr rd
         \<and> alminer_conesearch env (calls @ [SimbadQuery name]) ra dec rd (Some p) = Inl e \<longrightarrow>
       search_alma_by_target env name r p calls =
         (Inr (error_response (''ALMA search failed: '' @ exc_str e)),
          calls @ [SimbadQuery name, ConeSearch ra dec rd (Some p)])))
   \<and> (ALMINER_AVAILABLE env \<longrightarrow>
        tap_queries (snd (search_alma_by_target env name r p calls)) = tap_queries calls)"
proof (intro conjI impI)
  assume h: "SIMBAD_AVAILABLE env
      \<and> simbad_query_object env calls name = Inr (Some tbl) \<and> tbl \<noteq> []
      \<and> table_coords env (Some tbl) = Inr (ra, dec)"
  then have a: "SIMBAD_AVAILABLE env"
    and b: "simbad_query_object env calls name = Inr (Some tbl)" and c: "tbl \<noteq> []"
    and d: "table_coords env (Some tbl) = Inr (ra, dec)"
    by simp_all
  note after = target_after_resolution [OF a b c d, of r p]
  {
    assume "\<not> ALMINER_AVAILABLE env"
    then show "search_alma_by_target env name r p calls =
        search_alma_by_position env ra dec r p (calls @ [SimbadQuery name])"
      using after by simp
  }
  {
    assume "ALMINER_AVAILABLE env
        \<and> f_truediv (fops env) r (f_lit (fops env) ''60.0'') = Inr rd
        \<and> alminer_conesearch env (calls @ [SimbadQuery name]) ra dec rd (Some p) = Inl e"
    then show "search_alma_by_target env name r p calls =
        (Inr (error_response (''ALMA search failed: '' @ exc_str e)),
         calls @ [SimbadQuery name, ConeSearch ra dec rd (Some p)])"
      using after conesearch_raises [of env r rd "calls @ [SimbadQuery name]" ra dec p e name]
      by simp
  }
next
  assume "ALMINER_AVAILABLE env"
  then show "tap_queries (snd (search_alma_by_target env name r p calls)) = tap_queries calls"
    by (rule target_no_tap)
qed

theorem target_fallback_only_when_unavailable_witness:
  "search_alma_by_target (demo_env\<lparr>ALMINER_AVAILABLE := False\<rparr>) ''M87'' ''1.0'' True [] =
     search_alma_by_position (demo_env\<lparr>ALMINER_AVAILABLE := False\<rparr>)
       ''187.7059'' ''12.3911'' ''1.0'' True [SimbadQuery ''M87'']
   \<and> search_alma_by_target demo_env ''M87'' ''1.0'' True [] =
     (Inr (error_response ''ALMA search failed: archive unreachable''),
      [SimbadQuery ''M87'', ConeSearch ''187.7059'' ''12.3911'' ''(1.0 / 60.0)'' (Some True)])
   \<and> tap_queries (snd (search_alma_by_target
        (demo_env\<lparr>alminer_conesearch := \<lambda>calls ra dec radius public. Inr (Some demo_frame)\<rparr>)
        ''M87'' ''1.0'' True [TapSearch ''SELECT 1''])) = [''SELECT 1'']"
proof -
  let ?off = "demo_env\<lparr>ALMINER_AVAILABLE := False\<rparr>"
  let ?rows = "demo_env\<lparr>alminer_conesearch := \<lambda>calls ra dec radius public. Inr (Some demo_frame)\<rparr>"
  let ?tbl = "[[(''RA'', ''12 30 49.42''), (''DEC'', ''+12 23 28.0'')]]"
  have s: "SIMBAD_AVAILABLE demo_env" "SIMBAD_AVAILABLE ?off"
    by (simp_all add: demo_env_def)
  have q: "simbad_query_object demo_env [] ''M87'' = Inr (Some ?tbl)"
    "simbad_query_object ?off [] ''M87'' = Inr (Some ?tbl)"
    by (simp_all add: demo_env_def)
  have n: "?tbl \<noteq> []" by simp
  have c: "table_coords demo_env (Some ?tbl) = Inr (''187.7059'', ''12.3911'')"
    "table_coords ?off (Some ?tbl) = Inr (''187.7059'', ''12.3911'')"
    by (simp_all add: demo_env_def table_coords_def simbad_first_def)
  have a: "\<not> ALMINER_AVAILABLE ?off" "ALMINER_AVAILABLE demo_env" "ALMINER_AVAILABLE ?rows"
    by (simp_all add: demo_env_def)
  have d: "f_truediv (fops demo_env) ''1.0'' (f_lit (fops demo_env) ''60.0'') = Inr ''(1.0 / 60.0)''"
    by (simp add: demo_env_def symbolic_floats_def)
  have r: "alminer_conesearch demo_env ([] @ [SimbadQuery ''M87'']) ''187.7059'' ''12.3911''
      ''(1.0 / 60.0)'' (Some True) = Inl (Exn ''ConnectionError'' ''archive unreachable'')"
    by (simp add: demo_env_def)
  have t: "tap_queries [TapSearch ''SELECT 1'' :: string call] = [''SELECT 1'']"
    by (simp add: tap_queries_def)
  from target_fallback_only_when_unavailable [of ?off "[]" "''M87''" ?tbl "''187.7059''"
      "''12.3911''" "''1.0''" True] s(2) q(2) n c(2) a(1)
  have one: "search_alma_by_target ?off ''M87'' ''1.0'' True [] =
     search_alma_by_position ?off ''187.7059'' ''12.3911'' ''1.0'' True [SimbadQuery ''M87'']"
    by simp
  from target_fallback_only_when_unavailable [of demo_env "[]" "''M87''" ?tbl "''187.7059''"
      "''12.3911''" "''1.0''" True "''(1.0 / 60.0)''"
      "Exn ''ConnectionError'' ''archive unreachable''"] s(1) q(1) n c(1) a(2) d r
  have two: "search_alma_by_target demo_env ''M87'' ''1.0'' True [] =
     (Inr (error_response ''ALMA search failed: archive unreachable''),
      [SimbadQuery ''M87'', ConeSearch ''187.7059'' ''12.3911'' ''(1.0 / 60.0)'' (Some True)])"
    by simp
  from target_fallback_only_when_unavailable [of ?rows "[TapSearch ''SELECT 1'']" "''M87''"
      _ _ _ "''1.0''" True] a(3)
  have three: "tap_queries (snd (search_alma_by_target ?rows ''M87'' ''1.0'' True
      [TapSearch ''SELECT 1''])) = [''SELECT 1'']"
    unfolding t by blast
  show ?thesis using one two three by (simp only: simp_thms)
qed

text \<open>
  The claim fails where \<^verbatim>\<open>alminer\<close> is installed and its cone search raises: the target
  search reports the error although the TAP position search, never tried, answers the same
  coordinates with an observation.
\<close>

theorem target_fallback_counterexample:
  "ALMINER_AVAILABLE demo_env
   \<and> search_alma_by_target demo_env ''M87'' ''1.0'' True [] =
     (Inr [(''error'', VStr ''ALMA search failed: archive unreachable'')],
      [SimbadQuery ''M87'', ConeSearch ''187.7059'' ''12.3911'' ''(1.0 / 60.0)'' (Some True)])
   \<and> search_alma_by_position demo_env ''187.7059'' ''12.3911'' ''1.0'' True [SimbadQuery ''M87''] =
     (Inr [(''count'', VInt 1), (''showing'', VInt 1),
           (''position'', PyDict [(''ra'', VFloat ''187.7059''), (''dec'', VFloat ''12.3911'')]),
           (''observations'', PyList
              [PyDict [(''target'', VStr ''M87''),
                       (''ra'', VFloat ''round(0, 4)''), (''dec'', VFloat ''round(0, 4)''),
                       (''band'', VStr ''6''), (''proposal_id'', VStr ''2017.1.00841.V'')]]),
           (''summary'', VStr (''Found 1 ALMA observations near RA=format(187.7059, .4f), ''
              @ ''Dec=format(12.3911, .4f)''))],
      [SimbadQuery ''M87'',
       TapSearch (position_query symbolic_floats ''187.7059'' ''12.3911'' ''(1.0 / 60.0)'')])"
  by code_simp

section \<open>The data-type vocabulary (C9)\<close>

lemma data_type_rejected:
  assumes "PYVO_AVAILABLE env" and "py_lower d \<notin> set [''cube'', ''image'']"
  shows "search_alma_by_data_type env d tn kw b calls =
     (Inr (error_response (''data_type must be 'cube' or 'image'' @ sq)), calls)"
  using assms by (simp add: search_alma_by_data_type_def ret_def)

lemma keyword_conditions_ignore:
  assumes "py_lower d \<notin> set [''cube'', ''image'']"
  shows "science_keyword_conditions kw (Some d) b so = science_keyword_conditions kw None b so"
  using assms by (simp add: science_keyword_conditions_def truthy_str_def)

lemma keyword_conditions_outside:
  assumes "py_lower d \<notin> set [''cube'', ''image'']"
  shows "science_keyword_conditions kw (Some d) b so =
     [like_lower ''science_keyword'' kw] @
     (if so then [''science_observation = 'T'' @ sq] else []) @
     (if truthy_int b then [band_condition (the b)] else [])"
  using assms by (simp add: science_keyword_conditions_def)

lemma keyword_calls:
  assumes "PYVO_AVAILABLE env" and "tap_service env tap_url = Inr u"
  shows "snd (search_alma_by_science_keyword env kw dt b so calls) =
     calls @ [TapSearch (science_keyword_query
        (py_join '' AND '' (science_keyword_conditions kw dt b so)))]"
  using assms
  by (simp add: search_alma_by_science_keyword_def comp_defs service_search_def Let_def
      split: sum.splits prod.splits)

lemma keyword_no_rows:
  assumes "PYVO_AVAILABLE env" and "tap_service env tap_url = Inr u"
    and "tap_search env calls (science_keyword_query
        (py_join '' AND '' (science_keyword_conditions kw dt b so))) = Inr df"
    and "df_empty df"
  shows "fst (search_alma_by_science_keyword env kw dt b so calls) =
     Inr [(''count'', VInt 0),
          (''science_keyword'', VStr kw),
          (''observations'', PyList []),
          (''summary'', VStr (''No observations found with science keyword '' @ sq @ kw @ sq))]"
  using assms
  by (simp add: search_alma_by_science_keyword_def comp_defs service_search_def Let_def)

lemma keyword_rows:
  assumes "PYVO_AVAILABLE env" and "tap_service env tap_url = Inr u"
    and "tap_search env calls (science_keyword_query
        (py_join '' AND '' (science_keyword_conditions kw dt b so))) = Inr df"
    and "\<not> df_empty df"
    and "unique_top10 df ''target_name'' = Inr ut"
  shows "fst (search_alma_by_science_keyword env kw dt b so calls) =
     Inr [(''count'', VNat (df_len df)),
          (''showing'', VNat (min 20 (df_len df))),
          (''science_keyword'', VStr kw),
          (''unique_targets'', ut),
          (''observations'', PyList (map (science_keyword_obs (fops env)) (df_head 20 df))),
          (''summary'', VStr (''Found '' @ decimal (df_len df)
              @ '' observations with science keyword '' @ sq @ kw @ sq))]"
  using assms
  by (simp add: search_alma_by_science_keyword_def comp_defs service_search_def Let_def)

text \<open>
  C9, as the code has it. A data type whose lower-case form is neither \<open>cube\<close> nor
  \<open>image\<close> makes the data-type search return its validation error without any remote
  call. The science-keyword search ignores such a value: it behaves as if no data type
  had been given. With the TAP service at hand it sends exactly one query, whose conditions
  are the keyword, the science-observation flag and the band, with no condition on the data
  type; and when the service answers that query with a frame, the response is the result
  built from the frame (no observations for an empty frame, the observations otherwise), not
  a validation error.
\<close>

theorem data_type_vocabulary:
  assumes "PYVO_AVAILABLE env" and "py_lower d \<notin> set [''cube'', ''image'']"
  shows "search_alma_by_data_type env d tn kw b calls =
           (Inr (error_response (''data_type must be 'cube' or 'image'' @ sq)), calls)
         \<and> search_alma_by_science_keyword env kw' (Some d) b' so =
             search_alma_by_science_keyword env kw' None b' so
         \<and> (tap_service env tap_url = Inr u \<longrightarrow>
              snd (search_alma_by_science_keyword env kw' (Some d) b' so calls) =
                calls @ [TapSearch (science_keyword_query (py_join '' AND ''
                  ([like_lower ''science_keyword'' kw'] @
                   (if so then [''science_observation = 'T'' @ sq] else []) @
                   (if truthy_int b' then [band_condition (the b')] else []))))])
         \<and> (tap_service env tap_url = Inr u
              \<and> tap_search env calls (science_keyword_query (py_join '' AND ''
                  ([like_lower ''science_keyword'' kw'] @
                   (if so then [''science_observation = 'T'' @ sq] else []) @
                   (if truthy_int b' then [band_condition (the b')] else [])))) = Inr df \<longrightarrow>
              (df_empty df \<longrightarrow>
                 fst (search_alma_by_science_keyword env kw' (Some d) b' so calls) =
                   Inr [(''count'', VInt 0),
                        (''science_keyword'', VStr kw'),
                        (''observations'', PyList []),
                        (''summary'', VStr (''No observations found with science keyword ''
                            @ sq @ kw' @ sq))])
              \<and> (\<not> df_empty df \<and> unique_top10 df ''target_name'' = Inr ut \<longrightarrow>
                 fst (search_alma_by_science_keyword env kw' (Some d) b' so calls) =
                   Inr [(''count'', VNat (df_len df)),
                        (''showing'', VNat (min 20 (df_len df))),
                        (''science_keyword'', VStr kw'),
                        (''unique_targets'', ut),
                        (''observations'',
                           PyList (map (science_keyword_obs (fops env)) (df_head 20 df))),
                        (''summary'', VStr (''Found '' @ decimal (df_len df)
                            @ '' observations with science keyword '' @ sq @ kw' @ sq))]))"
proof -
  note c = keyword_conditions_outside [OF assms(2), of kw' b' so]
  have one: "search_alma_by_data_type env d tn kw b calls =
      (Inr (error_response (''data_type must be 'cube' or 'image'' @ sq)), calls)"
    by (rule data_type_rejected [OF assms])
  have two: "search_alma_by_science_keyword env kw' (Some d) b' so =
      search_alma_by_science_keyword env kw' None b' so"
    using keyword_conditions_ignore [OF assms(2)]
    by (simp add: search_alma_by_science_keyword_def)
  have three: "tap_service env tap_url = Inr u \<longrightarrow>
      snd (search_alma_by_science_keyword env kw' (Some d) b' so calls) =
        calls @ [TapSearch (science_keyword_query (py_join '' AND ''
          ([like_lower ''science_keyword'' kw'] @
           (if so then [''science_observation = 'T'' @ sq] else []) @
           (if truthy_int b' then [band_condition (the b')] else []))))]"
    using keyword_calls [OF assms(1), of u kw' "Some d" b' so calls] unfolding c by blast
  have four: "tap_service env tap_url = Inr u
      \<and> tap_search env calls (science_keyword_query (py_join '' AND ''
          ([like_lower ''science_keyword'' kw'] @
           (if so then [''science_observation = 'T'' @ sq] else []) @
           (if truthy_int b' then [band_condition (the b')] else [])))) = Inr df \<longrightarrow>
      (df_empty df \<longrightarrow>
         fst (search_alma_by_science_keyword env kw' (Some d) b' so calls) =
           Inr [(''count'', VInt 0),
                (''science_keyword'', VStr kw'),
                (''observations'', PyList []),
                (''summary'', VStr (''No observations found with science keyword ''
                    @ sq @ kw' @ sq))])
      \<and> (\<not> df_empty df \<and> unique_top10 df ''target_name'' = Inr ut \<longrightarrow>
         fst (search_alma_by_science_keyword env kw' (Some d) b' so calls) =
           Inr [(''count'', VNat (df_len df)),
                (''showing'', VNat (min 20 (df_len df))),
                (''science_keyword'', VStr kw'),
                (''unique_targets'', ut),
                (''observations'',
                   PyList (map (science_keyword_obs (fops env)) (df_head 20 df))),
                (''summary'', VStr (''Found '' @ decimal (df_len df)
                    @ '' observations with science keyword '' @ sq @ kw' @ sq))])"
    using keyword_no_rows [OF assms(1), of u calls kw' "Some d" b' so df]
      keyword_rows [OF assms(1), of u calls kw' "Some d" b' so df ut]
    unfolding c by blast
  from one two three four show ?thesis by (simp only: simp_thms)
qed

theorem data_type_vocabulary_witness:
  "search_alma_by_data_type demo_env ''spectrum'' None None None [] =
     (Inr (error_response (''data_type must be 'cube' or 'image'' @ sq)), [])
   \<and> search_alma_by_science_keyword demo_env ''Quasars'' (Some ''spectrum'') None True =
       search_alma_by_science_keyword demo_env ''Quasars'' None None True
   \<and> snd (search_alma_by_science_keyword demo_env ''Quasars'' (Some ''spectrum'') None True []) =
       [TapSearch (science_keyword_query
          (''LOWER(science_keyword) LIKE LOWER('%Quasars%') AND science_observation = 'T'' @ sq))]
   \<and> fst (search_alma_by_science_keyword demo_env ''Quasars'' (Some ''spectrum'') None True []) =
       Inr [(''count'', VNat 1),
            (''showing'', VNat 1),
            (''science_keyword'', VStr ''Quasars''),
            (''unique_targets'', PyList [VStr ''M87'']),
            (''observations'', PyList (map (science_keyword_obs symbolic_floats)
                                         (df_head 20 demo_frame))),
            (''summary'', VStr (''Found 1 observations with science keyword 'Quasars'' @ sq))]"
proof -
  have p: "PYVO_AVAILABLE demo_env" by (simp add: demo_simps)
  have h: "py_lower ''spectrum'' \<notin> set [''cube'', ''image'']" by code_simp
  have u: "tap_service demo_env tap_url = Inr ()" by (simp add: demo_simps)
  have w: "py_join '' AND '' ([like_lower ''science_keyword'' ''Quasars''] @
      (if True then [''science_observation = 'T'' @ sq] else []) @
      (if truthy_int None then [band_condition (the None)] else [])) =
      ''LOWER(science_keyword) LIKE LOWER('%Quasars%') AND science_observation = 'T'' @ sq"
    by (simp add: like_lower_def truthy_int_def)
  have s: "tap_search demo_env [] query = Inr demo_frame" for query
    by (simp add: demo_simps)
  have e: "\<not> df_empty demo_frame" by (simp add: df_empty_def demo_frame_def)
  have t: "unique_top10 demo_frame ''target_name'' = Inr (PyList [VStr ''M87''])"
    by code_simp
  have l: "df_len demo_frame = 1" by (simp add: df_len_def demo_frame_def)
  have d: "decimal 1 = ''1''" by code_simp
  have f: "fops demo_env = symbolic_floats" by (simp add: demo_simps)
  note inst = data_type_vocabulary [OF p h, of None None None "[]" "''Quasars''" None True "()"
      demo_frame "PyList [VStr ''M87'']"]
  from inst have one: "search_alma_by_data_type demo_env ''spectrum'' None None None [] =
      (Inr (error_response (''data_type must be 'cube' or 'image'' @ sq)), [])"
    by (rule conjunct1)
  from inst have two:
    "search_alma_by_science_keyword demo_env ''Quasars'' (Some ''spectrum'') None True =
     search_alma_by_science_keyword demo_env ''Quasars'' None None True"
    by blast
  from inst u have
    "snd (search_alma_by_science_keyword demo_env ''Quasars'' (Some ''spectrum'') None True []) =
     [] @ [TapSearch (science_keyword_query (py_join '' AND ''
        ([like_lower ''science_keyword'' ''Quasars''] @
         (if True then [''science_observation = 'T'' @ sq] else []) @
         (if truthy_int None then [band_condition (the None)] else []))))]"
    by blast
  then have three:
    "snd (search_alma_by_science_keyword demo_env ''Quasars'' (Some ''spectrum'') None True []) =
     [TapSearch (science_keyword_query
        (''LOWER(science_keyword) LIKE LOWER('%Quasars%') AND science_observation = 'T'' @ sq))]"
    unfolding w by simp
  from inst u s e t have
    "fst (search_alma_by_science_keyword demo_env ''Quasars'' (Some ''spectrum'') None True []) =
     Inr [(''count'', VNat (df_len demo_frame)),
          (''showing'', VNat (min 20 (df_len demo_frame))),
          (''science_keyword'', VStr ''Quasars''),
          (''unique_targets'', PyList [VStr ''M87'']),
          (''observations'',
             PyList (map (science_keyword_obs (fops demo_env)) (df_head 20 demo_frame))),
          (''summary'', VStr (''Found '' @ decimal (df_len demo_frame)
              @ '' observations with science keyword '' @ sq @ ''Quasars'' @ sq))]"
    by blast
  then have four:
    "fst (search_alma_by_science_keyword demo_env ''Quasars'' (Some ''spectrum'') None True []) =
     Inr [(''count'', VNat 1),
          (''showing'', VNat 1),
          (''science_keyword'', VStr ''Quasars''),
          (''unique_targets'', PyList [VStr ''M87'']),
          (''observations'', PyList (map (science_keyword_obs symbolic_floats)
                                       (df_head 20 demo_frame))),
          (''summary'', VStr (''Found 1 observations with science keyword 'Quasars'' @ sq))]"
    unfolding l d f by simp
  from one two three four show ?thesis by (simp only: simp_thms)
qed

text \<open>
  The claim fails in the science-keyword search: with the data type \<open>spectrum\<close> it sends
  its query, without a data-type condition, and returns the observations.
\<close>

theorem data_type_vocabulary_counterexample:
  "py_lower ''spectrum'' \<notin> set [''cube'', ''image'']
   \<and> search_alma_by_science_keyword demo_env ''Quasars'' (Some ''spectrum'') None True [] =
     (Inr [(''count'', VInt 1), (''showing'', VInt 1),
           (''science_keyword'', VStr ''Quasars''),
           (''unique_targets'', PyList [VStr ''M87'']),
           (''observations'', PyList
              [PyDict [(''target'', VStr ''M87''), (''band'', VStr ''6''),
                       (''proposal_id'', VStr ''2017.1.00841.V''),
                       (''data_type'', VStr ''Unknown''),
                       (''science_keyword'', VStr ''Unknown'')]]),
           (''summary'', VStr (''Found 1 observations with science keyword 'Quasars'' @ sq))],
      [TapSearch (science_keyword_query
         (''LOWER(science_keyword) LIKE LOWER('%Quasars%') AND science_observation = 'T'' @ sq))])"
  by code_simp

section \<open>User text in the queries (C10)\<close>













section \<open>The batch runner\<close>

lemma dict_set_keys:
  "map fst (dict_set d k v) = (if k \<in> fst ` set d then map fst d else map fst d @ [k])"
proof (induction d)
  case Nil
  show ?case by simp
next
  case (Cons p d)
  obtain k' v' where p: "p = (k', v')" by (cases p)
  show ?case
  proof (cases "k' = k")
    case True
    then show ?thesis by (simp add: p)
  next
    case False
    then show ?thesis using Cons by (simp add: p)
  qed
qed

lemma dict_set_values:
  "list_all P (map snd d) \<Longrightarrow> P v \<Longrightarrow> list_all P (map snd (dict_set d k v))"
  by (induction d) auto

lemma entry_shapes:
  "entry_ok (not_resolved_entry name)"
  "entry_ok (no_data_entry ops ra dec)"
  "entry_ok (found_entry ops n ra dec bands)"
  "entry_ok (error_entry e)"
  by (simp_all add: entry_ok_def has_status_def entry_message_def not_resolved_entry_def
      no_data_entry_def found_entry_def error_entry_def)

text \<open>One round of the loop writes one entry, under the name of the round.\<close>

lemma batch_item_keys:
  "map fst (results_by_source (fst (batch_item env r st name calls))) =
     (if name \<in> fst ` set (results_by_source st) then map fst (results_by_source st)
      else map fst (results_by_source st) @ [name])"
  unfolding batch_item_def batch_item_body_def set_result_def Let_def
  by (auto simp: dict_set_keys split: sum.splits prod.splits)

lemma batch_item_values:
  "list_all entry_ok (map snd (results_by_source st)) \<Longrightarrow>
   list_all entry_ok (map snd (results_by_source (fst (batch_item env r st name calls))))"
  unfolding batch_item_def batch_item_body_def set_result_def Let_def
  by (auto simp: dict_set_values entry_shapes split: sum.splits prod.splits)

lemma batch_item_names:
  "resolved_names (snd (batch_item env r st name calls)) = resolved_names calls @ [name]"
  unfolding batch_item_def batch_item_body_def Let_def
  by (auto simp: resolved_names_def simbad_query_def service_search_def remote_def
      split: sum.splits prod.splits)

lemma fold_keys_set:
  "set (fold (\<lambda>x acc. if x \<in> set acc then acc else acc @ [x]) xs acc) = set acc \<union> set xs"
  by (induction xs arbitrary: acc) auto

lemma fold_keys_distinct:
  "distinct acc \<Longrightarrow> distinct (fold (\<lambda>x acc. if x \<in> set acc then acc else acc @ [x]) xs acc)"
  by (induction xs arbitrary: acc) auto

lemma batch_loop_names:
  "resolved_names (snd (batch_loop env r names st calls)) = resolved_names calls @ names"
proof (induction names arbitrary: st calls)
  case Nil
  show ?case by simp
next
  case (Cons name rest)
  obtain st' calls' where item: "batch_item env r st name calls = (st', calls')"
    by (cases "batch_item env r st name calls")
  have "resolved_names calls' = resolved_names calls @ [name]"
    using batch_item_names [of env r st name calls] by (simp add: item)
  then show ?case using Cons [of st' calls'] by (simp add: item)
qed

lemma batch_loop_keys:
  "map fst (results_by_source (fst (batch_loop env r names st calls))) =
     fold (\<lambda>x acc. if x \<in> set acc then acc else acc @ [x]) names
       (map fst (results_by_source st))"
proof (induction names arbitrary: st calls)
  case Nil
  show ?case by simp
next
  case (Cons name rest)
  obtain st' calls' where item: "batch_item env r st name calls = (st', calls')"
    by (cases "batch_item env r st name calls")
  have "map fst (results_by_source st') =
      (if name \<in> set (map fst (results_by_source st)) then map fst (results_by_source st)
       else map fst (results_by_source st) @ [name])"
    using batch_item_keys [of env r st name calls] by (simp add: item)
  then show ?case using Cons [of st' calls'] by (simp add: item)
qed

lemma batch_loop_values:
  "list_all entry_ok (map snd (results_by_source st)) \<Longrightarrow>
   list_all entry_ok (map snd (results_by_source (fst (batch_loop env r names st calls))))"
proof (induction names arbitrary: st calls)
  case Nil
  then show ?case by simp
next
  case (Cons name rest)
  obtain st' calls' where item: "batch_item env r st name calls = (st', calls')"
    by (cases "batch_item env r st name calls")
  have "list_all entry_ok (map snd (results_by_source st'))"
    using batch_item_values [OF Cons.prems, of env r name calls] by (simp add: item)
  then show ?case using Cons.IH [of st' calls'] by (simp add: item)
qed

lemma batch_runs:
  assumes "SIMBAD_AVAILABLE env" and "PYVO_AVAILABLE env"
  shows "query_alma_multiple_sources env names r calls =
     (Inr (batch_response (length (take 20 names))
             (fst (batch_loop env r (take 20 names)
                     \<lparr>results_by_source = [], total_observations = 0\<rparr> calls))),
      snd (batch_loop env r (take 20 names)
             \<lparr>results_by_source = [], total_observations = 0\<rparr> calls))"
  using assms
  by (simp add: query_alma_multiple_sources_def try_except_def Let_def split: prod.splits)

lemma batch_response_fields:
  "result_map (batch_response n st) = results_by_source st"
  "error_text (batch_response n st) = None"
  "map_of (batch_response n st) ''total_sources_queried'' = Some (VNat n)"
  by (simp_all add: batch_response_def result_map_def error_text_def Let_def)


lemma batch_run_facts:
  assumes "SIMBAD_AVAILABLE env" and "PYVO_AVAILABLE env"
  shows "\<exists>st calls'.
           query_alma_multiple_sources env names r calls =
             (Inr (batch_response (length (take 20 names)) st), calls')
         \<and> resolved_names calls' = resolved_names calls @ take 20 names
         \<and> map fst (results_by_source st) = unique_first (take 20 names)
         \<and> list_all entry_ok (map snd (results_by_source st))"
proof -
  let ?L = "batch_loop env r (take 20 names)
              \<lparr>results_by_source = [], total_observations = 0\<rparr> calls"
  have "query_alma_multiple_sources env names r calls =
      (Inr (batch_response (length (take 20 names)) (fst ?L)), snd ?L)"
    using assms by (rule batch_runs)
  moreover have "resolved_names (snd ?L) = resolved_names calls @ take 20 names"
    by (rule batch_loop_names)
  moreover have "map fst (results_by_source (fst ?L)) = unique_first (take 20 names)"
    by (simp add: batch_loop_keys unique_first_def)
  moreover have "list_all entry_ok (map snd (results_by_source (fst ?L)))"
    by (rule batch_loop_values) simp
  ultimately show ?thesis by blast
qed

lemma unique_first_set: "set (unique_first xs) = set xs"
  by (simp add: unique_first_def fold_keys_set)

lemma unique_first_distinct: "distinct (unique_first xs)"
  by (simp add: unique_first_def fold_keys_distinct)




lemma demo_flags: "SIMBAD_AVAILABLE demo_env" "PYVO_AVAILABLE demo_env"
  by (simp_all add: demo_env_def)

subsection \<open>Repeated names (C6)\<close>

text \<open>
  C6, as the code has it. With both libraries present, every occurrence among the first
  20 entries is processed on its own, in input order: SIMBAD is asked once per occurrence,
  and \<open>total_sources_queried\<close> counts the occurrences. The per-name result map is keyed by
  the name, so it holds one entry for each distinct name, in the order of the first
  occurrences.
\<close>

theorem batch_repeated_names:
  assumes "SIMBAD_AVAILABLE env" and "PYVO_AVAILABLE env"
  shows "\<exists>response calls'.
           query_alma_multiple_sources env names r calls = (Inr response, calls')
         \<and> resolved_names calls' = resolved_names calls @ take 20 names
         \<and> map_of response ''total_sources_queried'' = Some (VNat (length (take 20 names)))
         \<and> map fst (result_map response) = unique_first (take 20 names)
         \<and> distinct (map fst (result_map response))"
proof -
  from batch_run_facts [OF assms, of names r calls] obtain st calls' where
    run: "query_alma_multiple_sources env names r calls =
            (Inr (batch_response (length (take 20 names)) st), calls')"
    and names: "resolved_names calls' = resolved_names calls @ take 20 names"
    and keys: "map fst (results_by_source st) = unique_first (take 20 names)"
    by blast
  let ?R = "batch_response (length (take 20 names)) st"
  have a: "map_of ?R ''total_sources_queried'' = Some (VNat (length (take 20 names)))"
    by (rule batch_response_fields)
  have b: "map fst (result_map ?R) = unique_first (take 20 names)"
    using keys by (simp add: batch_response_fields)
  have c: "distinct (map fst (result_map ?R))"
    unfolding b by (rule unique_first_distinct)
  from run names a b c show ?thesis by blast
qed

theorem batch_repeated_names_witness:
  "\<exists>response calls'.
     query_alma_multiple_sources demo_env [''M87'', ''Crab'', ''M87''] ''1.0'' [] =
       (Inr response, calls')
   \<and> resolved_names calls' = [''M87'', ''Crab'', ''M87'']
   \<and> map_of response ''total_sources_queried'' = Some (VInt 3)
   \<and> map fst (result_map response) = [''M87'', ''Crab'']
   \<and> distinct (map fst (result_map response))"
proof -
  have u: "unique_first [''M87'', ''Crab'', ''M87''] = [''M87'', ''Crab'']"
    by (simp add: unique_first_def)
  from batch_repeated_names [OF demo_flags, of "[''M87'', ''Crab'', ''M87'']" "''1.0''" "[]"]
  show ?thesis by (simp add: resolved_names_def u)
qed

text \<open>
  The claim's entry for every occurrence fails on a repeated name: \<open>M87\<close> given twice is
  resolved and searched twice and counted twice, and the result map holds a single entry.
\<close>

theorem batch_repeated_names_counterexample:
  "query_alma_multiple_sources demo_env [''M87'', ''M87''] ''1.0'' [] =
     (Inr [(''total_sources_queried'', VInt 2),
           (''sources_with_alma_data'', VInt 1),
           (''total_observations'', VInt 2),
           (''results_by_source'', PyDict
              [(''M87'', PyDict
                  [(''status'', VStr ''found''), (''count'', VInt 1),
                   (''coordinates'', PyDict
                      [(''ra'', VFloat ''round(187.7059, 4)''),
                       (''dec'', VFloat ''round(12.3911, 4)'')]),
                   (''bands_observed'', PyList [VStr ''6''])])]),
           (''summary'', VStr ''1 of 2 sources have ALMA observations'')],
      [SimbadQuery ''M87'',
       TapSearch (batch_query symbolic_floats ''187.7059'' ''12.3911'' ''(1.0 / 60.0)''),
       SimbadQuery ''M87'',
       TapSearch (batch_query symbolic_floats ''187.7059'' ''12.3911'' ''(1.0 / 60.0)'')])"
  by code_simp

subsection \<open>Isolation of failures (C7)\<close>









subsection \<open>Truncation to twenty entries (C8)\<close>

text \<open>
  C8. With both libraries present, a batch of \<open>n\<close> names processes exactly the first
  \<open>min n 20\<close> entries: those names, in order, are the ones SIMBAD is asked to resolve,
  they are the names of the result map, \<open>total_sources_queried\<close> is \<open>min n 20\<close>, and the
  response is not an error.
\<close>

theorem batch_truncates_to_twenty:
  assumes "SIMBAD_AVAILABLE env" and "PYVO_AVAILABLE env"
  shows "\<exists>response calls'.
           query_alma_multiple_sources env names r calls = (Inr response, calls')
         \<and> map_of response ''total_sources_queried'' = Some (VNat (min (length names) 20))
         \<and> error_text response = None
         \<and> resolved_names calls' = resolved_names calls @ take 20 names
         \<and> set (map fst (result_map response)) = set (take 20 names)"
proof -
  from batch_run_facts [OF assms, of names r calls] obtain st calls' where
    run: "query_alma_multiple_sources env names r calls =
            (Inr (batch_response (length (take 20 names)) st), calls')"
    and names: "resolved_names calls' = resolved_names calls @ take 20 names"
    and keys: "map fst (results_by_source st) = unique_first (take 20 names)"
    by blast
  let ?R = "batch_response (length (take 20 names)) st"
  have a: "map_of ?R ''total_sources_queried'' = Some (VNat (min (length names) 20))"
    by (simp add: batch_response_fields min.commute)
  have b: "error_text ?R = None"
    by (rule batch_response_fields)
  have d: "set (map fst (result_map ?R)) = set (take 20 names)"
    using keys unique_first_set [of "take 20 names"] by (simp add: batch_response_fields)
  from run a b names d show ?thesis by blast
qed

theorem batch_truncates_to_twenty_witness:
  "\<exists>response calls'.
     query_alma_multiple_sources demo_env
       [''a'', ''b'', ''c'', ''d'', ''e'', ''f'', ''g'', ''h'', ''i'', ''j'', ''k'', ''l'', ''m'',
        ''n'', ''o'', ''p'', ''q'', ''r'', ''s'', ''t'', ''u'', ''v'', ''w'', ''x'', ''y'']
       ''1.0'' [] = (Inr response, calls')
   \<and> map_of response ''total_sources_queried'' = Some (VInt 20)
   \<and> error_text response = None
   \<and> resolved_names calls' =
       [''a'', ''b'', ''c'', ''d'', ''e'', ''f'', ''g'', ''h'', ''i'', ''j'', ''k'', ''l'', ''m'',
        ''n'', ''o'', ''p'', ''q'', ''r'', ''s'', ''t'']
   \<and> set (map fst (result_map response)) =
       set [''a'', ''b'', ''c'', ''d'', ''e'', ''f'', ''g'', ''h'', ''i'', ''j'', ''k'', ''l'', ''m'',
        ''n'', ''o'', ''p'', ''q'', ''r'', ''s'', ''t'']"
  using batch_truncates_to_twenty [OF demo_flags,
      of "[''a'', ''b'', ''c'', ''d'', ''e'', ''f'', ''g'', ''h'', ''i'', ''j'', ''k'', ''l'', ''m'',
        ''n'', ''o'', ''p'', ''q'', ''r'', ''s'', ''t'', ''u'', ''v'', ''w'', ''x'', ''y'']"
      "''1.0''" "[]"]
  by (simp add: resolved_names_def)

section \<open>Responses of the tool facade (C1)\<close>











































end
